theory Spec2Isabelle
  imports Main
begin

section \<open>Go values shared by the handlers\<close>

text \<open>
  A Go \<^verbatim>\<open>error\<close> built by \<^verbatim>\<open>errors.New\<close> is a pointer to a fresh
  \<^verbatim>\<open>errorString\<close>; two calls with the same text give two different values.  An error
  is therefore an address together with its text, and a wrapping error carries the error
  it unwraps to.  \<^verbatim>\<open>err.Error()\<close> is the text.
\<close>

datatype go_error =
    ErrorString nat string
  | WrapError nat string go_error

fun Error :: "go_error \<Rightarrow> string" where
  "Error (ErrorString a t) = t"
| "Error (WrapError a t e) = t"

fun addr :: "go_error \<Rightarrow> nat" where
  "addr (ErrorString a t) = a"
| "addr (WrapError a t e) = a"

text \<open>All addresses on the unwrap chain of an error.\<close>

fun chain :: "go_error \<Rightarrow> nat list" where
  "chain (ErrorString a t) = [a]"
| "chain (WrapError a t e) = a # chain e"

text \<open>
  \<^verbatim>\<open>errors.Is(err, target)\<close> for a non-nil \<^verbatim>\<open>err\<close> and a target of pointer type:
  pointer equality with the target at every link of the unwrap chain.
\<close>

fun errors_Is :: "go_error \<Rightarrow> go_error \<Rightarrow> bool" where
  "errors_Is (ErrorString a t) target = (a = addr target)"
| "errors_Is (WrapError a t e) target = (a = addr target \<or> errors_Is e target)"

text \<open>
  \<^verbatim>\<open>time.Time\<close> is read by the handlers through \<^verbatim>\<open>Unix()\<close> only, so a time is its
  number of seconds since the epoch; \<^verbatim>\<open>time.Time{}\<close> is January 1 of year 1.
\<close>

type_synonym time = int

definition zero_time :: time where
  "zero_time = - 62135596800"

definition Hour :: int where
  "Hour = 3600"

definition Minute :: int where
  "Minute = 60"

text \<open>
  Modelled from the spec: the declaration of \<^verbatim>\<open>models.User\<close> is not among the sources.
  The fields are the ones the handlers read and write, with the types of the spec's data
  model (section 3); a fresh \<^verbatim>\<open>models.User{}\<close> has every field at its zero value.
\<close>

record User =
  ID :: string
  Email :: string
  Password :: string
  PasswordSalt :: string
  PasswordUpdatedOn :: time
  EmailVerified :: bool
  EmailVerifiedAt :: time
  EmailVerifyToken :: string
  EmailVerifyTokenExpiresAt :: time
  PasswordResetToken :: string
  PasswordResetTokenExpiresAt :: time
  LastLogin :: int

definition zero_User :: User where
  "zero_User = \<lparr> ID = [], Email = [], Password = [], PasswordSalt = [],
     PasswordUpdatedOn = zero_time, EmailVerified = False, EmailVerifiedAt = zero_time,
     EmailVerifyToken = [], EmailVerifyTokenExpiresAt = zero_time,
     PasswordResetToken = [], PasswordResetTokenExpiresAt = zero_time, LastLogin = 0 \<rparr>"

text \<open>
  What a handler writes with \<^verbatim>\<open>utilities.JSON(w)\<close>: the status class, the HTTP status
  code, the message when one is set, and the data of a successful login.
\<close>

datatype ResponseStatus = ResponseSuccess | ResponseFail | ResponseError

record Response =
  Status :: ResponseStatus
  StatusCode :: nat
  Message :: "string option"
  Data :: "(User \<times> string) option"

definition StatusOK :: nat where
  "StatusOK = 200"

definition StatusBadRequest :: nat where
  "StatusBadRequest = 400"

definition StatusInternalServerError :: nat where
  "StatusInternalServerError = 500"

definition send :: "ResponseStatus \<Rightarrow> nat \<Rightarrow> string option \<Rightarrow> Response" where
  "send s c m = \<lparr> Status = s, StatusCode = c, Message = m, Data = None \<rparr>"

section \<open>Collaborators\<close>

text \<open>
  The store, the notifier, the token signer and the token codec are interfaces of other
  packages.  Each is a function from the arguments of a call to what the call returns;
  a handler asks the store for an identity once and writes at most once, so the answers
  do not depend on the order of the calls within a request.
\<close>

record Model =
  FindFirst :: "string \<Rightarrow> go_error + User"
  First :: "string \<Rightarrow> go_error + User"
  UpdateOne :: "string \<Rightarrow> User \<Rightarrow> go_error option"
  Save :: "User \<Rightarrow> go_error option"

record JWTClaims =
  Issuer :: string
  Audience :: string
  Subject :: string
  Expiration :: time

text \<open>
  The process around a request: the clock (the readings of \<^verbatim>\<open>time.Now()\<close> during one
  request fall into one second), the random source behind \<^verbatim>\<open>utilities.Generate\<close>
  and \<^verbatim>\<open>uuid.New\<close>, and the address the allocator gives to the next
  \<^verbatim>\<open>errors.New\<close>.
\<close>

record Process =
  now :: time
  rand :: "nat \<Rightarrow> char"
  uuid :: string
  fresh :: nat

text \<open>
  \<^verbatim>\<open>utilities.Generate(n)\<close>: a random string of \<open>n\<close> characters.  The characters
  drawn during a request are \<open>rand 0, rand 1, ...\<close>; \<open>pos\<close> counts the ones drawn
  before the call.
\<close>

definition Generate :: "Process \<Rightarrow> nat \<Rightarrow> nat \<Rightarrow> string" where
  "Generate p pos n = map (rand p) [pos ..< pos + n]"

definition errors_New :: "Process \<Rightarrow> string \<Rightarrow> go_error" where
  "errors_New p t = ErrorString (fresh p) t"

text \<open>
  The values of a \<^verbatim>\<open>map[string]any\<close>, by dynamic type.  A \<^verbatim>\<open>float64\<close> is kept by
  its integer part: the handlers only ask for the type.  The map itself is the list of its
  entries, read with \<open>map_of\<close>; a missing key reads as \<open>None\<close>, the nil interface.
\<close>

datatype go_value =
    VString string
  | VInt64 int
  | VInt int
  | VFloat64 int
  | VBool bool

text \<open>The calls a handler makes on its collaborators, in the order it makes them.\<close>

datatype call =
    CallFindFirst string
  | CallUpdateOne string User
  | CallSave User
  | CallNotify string string
  | CallCompare string string string
  | CallHash string string
  | CallSign JWTClaims
  | CallFirst string
  | CallEncrypt "(string \<times> go_value) list"
  | CallDecrypt string

section \<open>The password strategy\<close>

record loginRequest =
  login_Email :: string
  login_Password :: string

record registerRequest =
  register_Email :: string
  register_Password :: string

record resetPasswordRequest =
  reset_Email :: string
  reset_Token :: string
  reset_NewPassword :: string

record verifyEmailRequest =
  verify_Email :: string
  verify_Token :: string

text \<open>
  \<^verbatim>\<open>PasswordProviderConfig\<close>.  The hasher is always \<^verbatim>\<open>argonHasher\<close>, whose two
  methods call \<^verbatim>\<open>argon2.IDKey\<close> with fixed parameters: \<open>IDKey\<close> is that function of
  the password and the salt.
\<close>

record PasswordProviderConfig =
  issuer :: string
  audience :: string
  IDKey :: "string \<Rightarrow> string \<Rightarrow> string"
  store :: Model
  notify :: "string \<Rightarrow> string \<Rightarrow> go_error option"
  Sign :: "JWTClaims \<Rightarrow> go_error + string"

definition argonHasher_hash :: "PasswordProviderConfig \<Rightarrow> string \<Rightarrow> string \<Rightarrow> string" where
  "argonHasher_hash cfg password salt = IDKey cfg password salt"

definition argonHasher_compare ::
  "PasswordProviderConfig \<Rightarrow> Process \<Rightarrow> string \<Rightarrow> string \<Rightarrow> string \<Rightarrow> go_error option" where
  "argonHasher_compare cfg p password salt compare =
     (if IDKey cfg password salt \<noteq> compare
      then Some (errors_New p ''passwords don't Match'')
      else None)"

definition fail :: "go_error \<Rightarrow> Response" where
  "fail err = send ResponseFail StatusBadRequest (Some (Error err))"

text \<open>\<^verbatim>\<open>POST /login\<close>.  The body is the result of decoding the request's JSON.\<close>

definition login ::
  "PasswordProviderConfig \<Rightarrow> Process \<Rightarrow> string \<Rightarrow> go_error + loginRequest \<Rightarrow> Response \<times> call list" where
  "login cfg p action0 decoded =
     (case decoded of
        Inl err \<Rightarrow> (send ResponseError StatusInternalServerError (Some (Error err)), [])
      | Inr body \<Rightarrow>
         (case FindFirst (store cfg) (login_Email body) of
            Inl err \<Rightarrow> (fail err, [CallFindFirst (login_Email body)])
          | Inr user0 \<Rightarrow>
             (let action = (if \<not> EmailVerified user0 then ''verify'' else action0) in
              if action = ''verify'' then
                (let token = Generate p 0 4;
                     user = user0 \<lparr> EmailVerifyToken := token,
                                    EmailVerifyTokenExpiresAt := now p + Hour * 2 \<rparr>;
                     c1 = [CallFindFirst (login_Email body), CallUpdateOne (Email user) user]
                 in case UpdateOne (store cfg) (Email user) user of
                      Some err \<Rightarrow> (fail err, c1)
                    | None \<Rightarrow>
                       (case notify cfg (Email user) token of
                          Some err \<Rightarrow> (fail err, c1 @ [CallNotify (Email user) token])
                        | None \<Rightarrow>
                           (send ResponseSuccess StatusOK
                              (Some ''your email is yet to be verified, please check your email for verification code''),
                            c1 @ [CallNotify (Email user) token])))
              else
                (let c1 = [CallFindFirst (login_Email body),
                           CallCompare (login_Password body) (PasswordSalt user0) (Password user0)]
                 in case argonHasher_compare cfg p (login_Password body) (PasswordSalt user0) (Password user0) of
                      Some err \<Rightarrow> (fail err, c1)
                    | None \<Rightarrow>
                       (let user = user0 \<lparr> LastLogin := now p \<rparr>;
                            c2 = c1 @ [CallUpdateOne (Email user) user]
                        in case UpdateOne (store cfg) (Email user) user of
                             Some err \<Rightarrow> (fail err, c2)
                           | None \<Rightarrow>
                              (let claims = \<lparr> Issuer = issuer cfg, Audience = audience cfg,
                                              Subject = ID user,
                                              Expiration = now p + Hour * 24 * 30 \<rparr>;
                                   c3 = c2 @ [CallSign claims]
                               in case Sign cfg claims of
                                    Inl err \<Rightarrow> (fail err, c3)
                                  | Inr jwtToken \<Rightarrow>
                                     (\<lparr> Status = ResponseSuccess, StatusCode = StatusOK,
                                        Message = Some ''successfull login attempt'',
                                        Data = Some (user, jwtToken) \<rparr>, c3)))))))"

text \<open>\<^verbatim>\<open>POST /register\<close>.\<close>

definition register ::
  "PasswordProviderConfig \<Rightarrow> Process \<Rightarrow> go_error + registerRequest \<Rightarrow> Response \<times> call list" where
  "register cfg p decoded =
     (case decoded of
        Inl err \<Rightarrow>
          (send ResponseError StatusInternalServerError
             (Some (Error err @ ''unable to get user details'')), [])
      | Inr body \<Rightarrow>
         (let user1 = zero_User \<lparr> ID := uuid p, Email := register_Email body,
                                   PasswordSalt := Generate p 0 16,
                                   EmailVerifyToken := Generate p 16 4,
                                   EmailVerifyTokenExpiresAt := now p + Hour * 2 \<rparr>;
              hashedPassword = argonHasher_hash cfg (register_Password body) (PasswordSalt user1);
              user = user1 \<lparr> Password := hashedPassword \<rparr>;
              c1 = [CallHash (register_Password body) (PasswordSalt user1), CallSave user]
          in case Save (store cfg) user of
               Some err \<Rightarrow> (send ResponseError StatusInternalServerError (Some (Error err)), c1)
             | None \<Rightarrow>
                (case notify cfg (Email user) (EmailVerifyToken user) of
                   Some err \<Rightarrow> (fail err, c1 @ [CallNotify (Email user) (EmailVerifyToken user)])
                 | None \<Rightarrow>
                    (send ResponseSuccess StatusOK (Some ''your verification code has been resent''),
                     c1 @ [CallNotify (Email user) (EmailVerifyToken user)]))))"

text \<open>\<^verbatim>\<open>POST /password-reset\<close>.\<close>

definition password_reset ::
  "PasswordProviderConfig \<Rightarrow> Process \<Rightarrow> string \<Rightarrow> go_error + resetPasswordRequest \<Rightarrow> Response \<times> call list" where
  "password_reset cfg p action decoded =
     (case decoded of
        Inl err \<Rightarrow> (send ResponseError StatusInternalServerError (Some (Error err)), [])
      | Inr body \<Rightarrow>
         (case FindFirst (store cfg) (reset_Email body) of
            Inl err \<Rightarrow> (fail err, [CallFindFirst (reset_Email body)])
          | Inr user0 \<Rightarrow>
             if action = ''reset'' then
               (let token = Generate p 0 6;
                    user = user0 \<lparr> PasswordResetToken := token,
                                   PasswordResetTokenExpiresAt := now p + Hour * 1 \<rparr>;
                    c1 = [CallFindFirst (reset_Email body), CallUpdateOne (Email user) user]
                in case UpdateOne (store cfg) (Email user) user of
                     Some err \<Rightarrow> (fail err, c1)
                   | None \<Rightarrow>
                      (case notify cfg (Email user) token of
                         Some err \<Rightarrow> (fail err, c1 @ [CallNotify (Email user) token])
                       | None \<Rightarrow>
                          (send ResponseSuccess StatusOK (Some ''your reset code has been sent''),
                           c1 @ [CallNotify (Email user) token])))
             else if reset_Token body \<noteq> PasswordResetToken user0 then
               (send ResponseFail StatusBadRequest (Some ''invalid reset token''),
                [CallFindFirst (reset_Email body)])
             else if now p > PasswordResetTokenExpiresAt user0 then
               (let user = user0 \<lparr> PasswordResetToken := Generate p 0 6,
                                   PasswordResetTokenExpiresAt := now p + Hour * 1 \<rparr>;
                    c1 = [CallFindFirst (reset_Email body), CallUpdateOne (Email user) user]
                in case UpdateOne (store cfg) (Email user) user of
                     Some err \<Rightarrow> (fail err, c1)
                   | None \<Rightarrow>
                      (case notify cfg (Email user) (EmailVerifyToken user) of
                         Some err \<Rightarrow>
                           (fail err, c1 @ [CallNotify (Email user) (EmailVerifyToken user)])
                       | None \<Rightarrow>
                          (send ResponseFail StatusBadRequest
                             (Some ''token is expired, a new one has been sent to your mail''),
                           c1 @ [CallNotify (Email user) (EmailVerifyToken user)])))
             else
               (let user1 = user0 \<lparr> PasswordResetToken := [],
                                    PasswordSalt := Generate p 0 16 \<rparr>;
                    user = user1 \<lparr> Password :=
                                     argonHasher_hash cfg (reset_NewPassword body) (PasswordSalt user1),
                                   PasswordUpdatedOn := now p \<rparr>;
                    c1 = [CallFindFirst (reset_Email body),
                          CallHash (reset_NewPassword body) (PasswordSalt user1),
                          CallUpdateOne (Email user) user]
                in case UpdateOne (store cfg) (Email user) user of
                     Some err \<Rightarrow> (fail err, c1)
                   | None \<Rightarrow>
                      (send ResponseSuccess StatusOK (Some ''password changed, redirect to login''),
                       c1))))"

text \<open>\<^verbatim>\<open>POST /email-verify\<close>.\<close>

definition email_verify ::
  "PasswordProviderConfig \<Rightarrow> Process \<Rightarrow> string \<Rightarrow> go_error + verifyEmailRequest \<Rightarrow> Response \<times> call list" where
  "email_verify cfg p action decoded =
     (case decoded of
        Inl err \<Rightarrow> (send ResponseError StatusInternalServerError (Some (Error err)), [])
      | Inr body \<Rightarrow>
         (case FindFirst (store cfg) (verify_Email body) of
            Inl err \<Rightarrow> (fail err, [CallFindFirst (verify_Email body)])
          | Inr user0 \<Rightarrow>
             if action = ''resend'' then
               (let token = Generate p 0 4;
                    user = user0 \<lparr> EmailVerifyToken := token,
                                   EmailVerifyTokenExpiresAt := now p + Hour * 2 \<rparr>;
                    c1 = [CallFindFirst (verify_Email body), CallUpdateOne (Email user) user]
                in case UpdateOne (store cfg) (Email user) user of
                     Some err \<Rightarrow> (fail err, c1)
                   | None \<Rightarrow>
                      (case notify cfg (Email user) token of
                         Some err \<Rightarrow> (fail err, c1 @ [CallNotify (Email user) token])
                       | None \<Rightarrow>
                          (send ResponseSuccess StatusOK
                             (Some ''your verification code has been resent''),
                           c1 @ [CallNotify (Email user) token])))
             else if verify_Token body \<noteq> EmailVerifyToken user0 then
               (send ResponseFail StatusBadRequest (Some ''invalid verification token''),
                [CallFindFirst (verify_Email body)])
             else if now p > EmailVerifyTokenExpiresAt user0 then
               (let user = user0 \<lparr> EmailVerifyToken := Generate p 0 4,
                                   EmailVerifyTokenExpiresAt := now p + Hour * 2 \<rparr>;
                    c1 = [CallFindFirst (verify_Email body), CallUpdateOne (Email user) user]
                in case UpdateOne (store cfg) (Email user) user of
                     Some err \<Rightarrow> (fail err, c1)
                   | None \<Rightarrow>
                      (case notify cfg (Email user) (EmailVerifyToken user) of
                         Some err \<Rightarrow>
                           (fail err, c1 @ [CallNotify (Email user) (EmailVerifyToken user)])
                       | None \<Rightarrow>
                          (send ResponseFail StatusBadRequest
                             (Some ''token is expired, a new one has been sent to your mail''),
                           c1 @ [CallNotify (Email user) (EmailVerifyToken user)])))
             else
               (let user = user0 \<lparr> EmailVerifyToken := [], EmailVerified := True,
                                   EmailVerifyTokenExpiresAt := zero_time,
                                   EmailVerifiedAt := now p \<rparr>;
                    c1 = [CallFindFirst (verify_Email body), CallUpdateOne (Email user) user]
                in case UpdateOne (store cfg) (Email user) user of
                     Some err \<Rightarrow> (fail err, c1)
                   | None \<Rightarrow>
                      (send ResponseSuccess StatusOK
                         (Some ''email successfully verified, redirect to login''),
                       c1))))"

text \<open>
  The four routes that the password provider's \<^verbatim>\<open>Init\<close> installs, as one request
  type: the \<^verbatim>\<open>action\<close> query parameter and the decoded body.
\<close>

datatype request =
    Login string "go_error + loginRequest"
  | Register "go_error + registerRequest"
  | PasswordReset string "go_error + resetPasswordRequest"
  | EmailVerify string "go_error + verifyEmailRequest"

fun serve :: "PasswordProviderConfig \<Rightarrow> Process \<Rightarrow> request \<Rightarrow> Response \<times> call list" where
  "serve cfg p (Login action decoded) = login cfg p action decoded"
| "serve cfg p (Register decoded) = register cfg p decoded"
| "serve cfg p (PasswordReset action decoded) = password_reset cfg p action decoded"
| "serve cfg p (EmailVerify action decoded) = email_verify cfg p action decoded"

text \<open>The identities a handler hands to the store, in order.\<close>

fun persisted :: "call list \<Rightarrow> User list" where
  "persisted [] = []"
| "persisted (CallUpdateOne e u # cs) = u # persisted cs"
| "persisted (CallSave u # cs) = u # persisted cs"
| "persisted (c # cs) = persisted cs"

text \<open>The (email, token) pairs a handler hands to the notifier, in order.\<close>

fun notified :: "call list \<Rightarrow> (string \<times> string) list" where
  "notified [] = []"
| "notified (CallNotify e t # cs) = (e, t) # notified cs"
| "notified (c # cs) = notified cs"

section \<open>The passwordless strategy\<close>

record authenticateRequest =
  auth_Email :: string

text \<open>
  \<^verbatim>\<open>PasswordlessProviderConfig\<close>.  \<^verbatim>\<open>Encrypt\<close> and \<^verbatim>\<open>Decrypt\<close> return a value
  and an error; the handler drops the error and goes on with the value.
\<close>

record PasswordlessProviderConfig =
  pl_store :: Model
  pl_notify :: "string \<Rightarrow> string \<Rightarrow> go_error option"
  Encrypt :: "(string \<times> go_value) list \<Rightarrow> string \<times> go_error option"
  Decrypt :: "string \<Rightarrow> (string \<times> go_value) list \<times> go_error option"

text \<open>\<^verbatim>\<open>tokenValues["expiry"].(int64)\<close> with the \<^verbatim>\<open>ok\<close> result dropped.\<close>

fun assert_int64 :: "go_value option \<Rightarrow> int" where
  "assert_int64 (Some (VInt64 n)) = n"
| "assert_int64 v = 0"

definition tokenValues_of :: "Process \<Rightarrow> authenticateRequest \<Rightarrow> (string \<times> go_value) list" where
  "tokenValues_of p body =
     [(''email'', VString (auth_Email body)),
      (''expiry'', VInt64 (now p + Minute * 10))]"

text \<open>
  \<^verbatim>\<open>POST /magic-link/authorize\<close>, with the \<^verbatim>\<open>action\<close> and \<^verbatim>\<open>token\<close> query
  parameters (a missing parameter reads as the empty string) and the decoded body.
\<close>

definition authorize ::
  "PasswordlessProviderConfig \<Rightarrow> Process \<Rightarrow> string \<Rightarrow> string \<Rightarrow> go_error + authenticateRequest
     \<Rightarrow> Response \<times> call list" where
  "authorize cfg p action token decoded =
     (case decoded of
        Inl err \<Rightarrow> (send ResponseError StatusInternalServerError None, [])
      | Inr body \<Rightarrow>
         if action = ''authenticate'' then
           (if token = [] then (send ResponseError StatusBadRequest None, [])
            else
              (let tokenValues = fst (Decrypt cfg token);
                   c1 = [CallDecrypt token]
               in if map_of tokenValues ''email'' \<noteq> Some (VString (auth_Email body))
                  then (send ResponseError StatusBadRequest None, c1)
                  else
                    (let timestamp = assert_int64 (map_of tokenValues ''expiry'')
                     in if now p > timestamp
                        then (send ResponseError StatusBadRequest
                                (Some ''validation token has expire, please try again''), c1)
                        else
                          (case First (pl_store cfg) (auth_Email body) of
                             Inl err \<Rightarrow>
                               (send ResponseError StatusBadRequest (Some ''user not found''),
                                c1 @ [CallFirst (auth_Email body)])
                           | Inr user0 \<Rightarrow>
                              (let user1 = user0 \<lparr> LastLogin := now p \<rparr>;
                                   user = (if \<not> EmailVerified user1
                                           then user1 \<lparr> EmailVerified := True \<rparr> else user1);
                                   c2 = c1 @ [CallFirst (auth_Email body),
                                              CallUpdateOne (auth_Email body) user]
                               in case UpdateOne (pl_store cfg) (auth_Email body) user of
                                    Some err \<Rightarrow>
                                      (send ResponseError StatusBadRequest (Some ''user not updated''), c2)
                                  | None \<Rightarrow> (send ResponseSuccess StatusOK None, c2))))))
         else if action = ''resend'' then
           (case First (pl_store cfg) (auth_Email body) of
              Inl err \<Rightarrow>
                (send ResponseError StatusBadRequest (Some ''user not found''),
                 [CallFirst (auth_Email body)])
            | Inr user0 \<Rightarrow>
               (let tokenValues = tokenValues_of p body;
                    token' = fst (Encrypt cfg tokenValues);
                    ignored = pl_notify cfg (auth_Email body) token'
                in (send ResponseSuccess StatusOK None,
                    [CallFirst (auth_Email body), CallEncrypt tokenValues,
                     CallNotify (auth_Email body) token'])))
         else
           (let c1 = [CallFirst (auth_Email body)];
                lookup =
                  (case First (pl_store cfg) (auth_Email body) of
                     Inr user0 \<Rightarrow> Inr c1
                   | Inl err \<Rightarrow>
                      if errors_Is err (errors_New p ''doc not found'') then
                        (let user = zero_User \<lparr> Email := auth_Email body \<rparr>
                         in case Save (pl_store cfg) user of
                              Some err' \<Rightarrow>
                                Inl (send ResponseError StatusBadRequest None, c1 @ [CallSave user])
                            | None \<Rightarrow> Inr (c1 @ [CallSave user]))
                      else Inr c1)
            in case lookup of
                 Inl early \<Rightarrow> early
               | Inr c2 \<Rightarrow>
                  (let tokenValues = tokenValues_of p body;
                       token' = fst (Encrypt cfg tokenValues);
                       ignored = pl_notify cfg (auth_Email body) token'
                   in (send ResponseSuccess StatusOK
                         (Some ''please check your email for authentication link''),
                       c2 @ [CallEncrypt tokenValues, CallNotify (auth_Email body) token']))))"

section \<open>The strategy registry\<close>

text \<open>
  The router is the list of routes installed on it (method and pattern), the session a
  name.  A provider's \<^verbatim>\<open>Init\<close> is a Go function with no result: it returns, having
  changed the router, or it panics (\<open>None\<close>).
\<close>

type_synonym Router = "(string \<times> string) list"

datatype Session = ServerSession | CustomSession string

record Provider =
  Name :: string
  Init :: "Router \<Rightarrow> Session \<Rightarrow> Router option"

record Auth =
  providers :: "Provider list"
  router :: Router
  session :: Session

definition New :: "Router \<Rightarrow> (Auth \<Rightarrow> Auth) list \<Rightarrow> Auth" where
  "New r opts = fold (\<lambda>opt cfg. opt cfg) opts \<lparr> providers = [], router = r, session = ServerSession \<rparr>"

definition RegisterStrategy :: "Provider \<Rightarrow> Auth \<Rightarrow> Auth" where
  "RegisterStrategy provider a = a \<lparr> providers := providers a @ [provider] \<rparr>"

definition RegisterSession :: "Session \<Rightarrow> Auth \<Rightarrow> Auth" where
  "RegisterSession s a = a \<lparr> session := s \<rparr>"

text \<open>
  What a call of \<^verbatim>\<open>Build\<close> does: it panics, or it returns its \<^verbatim>\<open>error\<close> result
  (\<open>None\<close> is \<^verbatim>\<open>nil\<close>).  With either comes the router as the hooks left it and the
  hook invocations made: the provider's name, the router and the session it was given.
\<close>

datatype outcome = Panic | Return "go_error option"

type_synonym invocation = "string \<times> Router \<times> Session"

fun range_providers ::
  "Provider list \<Rightarrow> Session \<Rightarrow> Router \<Rightarrow> invocation list \<Rightarrow> bool \<times> Router \<times> invocation list" where
  "range_providers [] s r tr = (True, r, tr)"
| "range_providers (p # ps) s r tr =
     (case Init p r s of
        None \<Rightarrow> (False, r, tr @ [(Name p, r, s)])
      | Some r' \<Rightarrow> range_providers ps s r' (tr @ [(Name p, r, s)]))"

definition Build :: "Auth \<Rightarrow> outcome \<times> Router \<times> invocation list" where
  "Build a =
     (case range_providers (providers a) (session a) (router a) [] of
        (True, r, tr) \<Rightarrow> (Return None, r, tr)
      | (False, r, tr) \<Rightarrow> (Panic, r, tr))"

text \<open>
  The three parts of what \<^verbatim>\<open>Build\<close> does, and the router that an invocation was
  given.
\<close>

definition Build_result :: "Auth \<Rightarrow> outcome" where
  "Build_result a = fst (Build a)"

definition Build_router :: "Auth \<Rightarrow> Router" where
  "Build_router a = fst (snd (Build a))"

definition Build_calls :: "Auth \<Rightarrow> invocation list" where
  "Build_calls a = snd (snd (Build a))"

definition given_router :: "invocation \<Rightarrow> Router" where
  "given_router i = fst (snd i)"

section \<open>Properties of identities and requests\<close>

text \<open>
  The identity that a handler of the password strategy fetches for a request: the answer
  of the store's lookup by the body's email.  \<^verbatim>\<open>/register\<close> fetches none.
\<close>

fun fetched :: "PasswordProviderConfig \<Rightarrow> request \<Rightarrow> User option" where
  "fetched cfg (Login a (Inr b)) =
     (case FindFirst (store cfg) (login_Email b) of Inl err \<Rightarrow> None | Inr u \<Rightarrow> Some u)"
| "fetched cfg (PasswordReset a (Inr b)) =
     (case FindFirst (store cfg) (reset_Email b) of Inl err \<Rightarrow> None | Inr u \<Rightarrow> Some u)"
| "fetched cfg (EmailVerify a (Inr b)) =
     (case FindFirst (store cfg) (verify_Email b) of Inl err \<Rightarrow> None | Inr u \<Rightarrow> Some u)"
| "fetched cfg r = None"



text \<open>
  The spec's pairing of a token with its expiry: an identity that holds a verify or a
  reset token holds an expiry for it that is not the zero time.
\<close>

definition paired :: "User \<Rightarrow> bool" where
  "paired u = ((EmailVerifyToken u \<noteq> [] \<longrightarrow> EmailVerifyTokenExpiresAt u \<noteq> zero_time)
             \<and> (PasswordResetToken u \<noteq> [] \<longrightarrow> PasswordResetTokenExpiresAt u \<noteq> zero_time))"

section \<open>Concrete collaborators and inputs\<close>

text \<open>
  An in-memory store over a list of identities: a lookup returns the first identity with
  the email or the store's own not-found error, a write succeeds.  A process whose clock
  reads 1700000000 and whose random source draws the character 7.
\<close>

definition not_found :: go_error where
  "not_found = ErrorString 1 ''doc not found''"

definition lookup_email :: "User list \<Rightarrow> string \<Rightarrow> go_error + User" where
  "lookup_email us e = (case find (\<lambda>u. Email u = e) us of None \<Rightarrow> Inl not_found | Some u \<Rightarrow> Inr u)"

definition store_of :: "User list \<Rightarrow> Model" where
  "store_of us = \<lparr> FindFirst = lookup_email us, First = lookup_email us,
                   UpdateOne = (\<lambda>e u. None), Save = (\<lambda>u. None) \<rparr>"

definition delivered :: "string \<Rightarrow> string \<Rightarrow> go_error option" where
  "delivered e t = None"

definition smtp_down :: "string \<Rightarrow> string \<Rightarrow> go_error option" where
  "smtp_down e t = Some (ErrorString 2 ''smtp down'')"

definition toy_IDKey :: "string \<Rightarrow> string \<Rightarrow> string" where
  "toy_IDKey password salt = salt @ password"

definition toy_Sign :: "JWTClaims \<Rightarrow> go_error + string" where
  "toy_Sign c = Inr (''jwt-'' @ Subject c)"

definition pw_cfg :: "User list \<Rightarrow> PasswordProviderConfig" where
  "pw_cfg us = \<lparr> issuer = ''demo-issuer'', audience = ''demo-audience'', IDKey = toy_IDKey,
                 store = store_of us, notify = delivered, Sign = toy_Sign \<rparr>"

definition sevens :: "nat \<Rightarrow> char" where
  "sevens k = CHR ''7''"

definition proc :: Process where
  "proc = \<lparr> now = 1700000000, rand = sevens, uuid = ''u-2'', fresh = 100 \<rparr>"

text \<open>
  Two stored identities.  \<open>alice\<close> has verified her email and holds no token.
  \<open>bob\<close> registered and has not verified yet; his verify token has not expired.
\<close>

definition alice :: User where
  "alice = zero_User \<lparr> ID := ''u-1'', Email := ''alice@x.com'', Password := ''saltpw1'',
                        PasswordSalt := ''salt'', EmailVerified := True,
                        EmailVerifiedAt := 1690000000 \<rparr>"

definition bob :: User where
  "bob = zero_User \<lparr> ID := ''u-0'', Email := ''bob@x.com'', Password := ''nacl2wp'',
                      PasswordSalt := ''nacl'', EmailVerifyToken := ''4321'',
                      EmailVerifyTokenExpiresAt := 1700003600 \<rparr>"

definition bob_login :: loginRequest where
  "bob_login = \<lparr> login_Email = ''bob@x.com'', login_Password = ''pw2'' \<rparr>"

definition alice_wrong_login :: loginRequest where
  "alice_wrong_login = \<lparr> login_Email = ''alice@x.com'', login_Password = ''guess'' \<rparr>"

definition carol_login :: loginRequest where
  "carol_login = \<lparr> login_Email = ''carol@x.com'', login_Password = ''pw3'' \<rparr>"

text \<open>
  A passwordless configuration over the same store.  Its codec seals every claims map
  into the same string and opens every token as alice's claims with the expiry
  1800000000, which lies after the clock's reading, held as a \<^verbatim>\<open>float64\<close>.
\<close>

definition toy_Encrypt :: "(string \<times> go_value) list \<Rightarrow> string \<times> go_error option" where
  "toy_Encrypt m = (''sealed'', None)"

definition float_Decrypt :: "string \<Rightarrow> (string \<times> go_value) list \<times> go_error option" where
  "float_Decrypt t = ([(''email'', VString ''alice@x.com''), (''expiry'', VFloat64 1800000000)], None)"

definition pl_cfg :: "User list \<Rightarrow> (string \<Rightarrow> string \<Rightarrow> go_error option) \<Rightarrow> PasswordlessProviderConfig" where
  "pl_cfg us n = \<lparr> pl_store = store_of us, pl_notify = n, Encrypt = toy_Encrypt,
                   Decrypt = float_Decrypt \<rparr>"

definition alice_auth :: authenticateRequest where
  "alice_auth = \<lparr> auth_Email = ''alice@x.com'' \<rparr>"

definition carol_auth :: authenticateRequest where
  "carol_auth = \<lparr> auth_Email = ''carol@x.com'' \<rparr>"

text \<open>Two providers: one installs a route, the other one panics.\<close>

definition install_login :: "Router \<Rightarrow> Session \<Rightarrow> Router option" where
  "install_login r s = Some (r @ [(''POST'', ''/login'')])"

definition panics :: "Router \<Rightarrow> Session \<Rightarrow> Router option" where
  "panics r s = None"

definition password_provider :: Provider where
  "password_provider = \<lparr> Name = ''password'', Init = install_login \<rparr>"

definition broken_provider :: Provider where
  "broken_provider = \<lparr> Name = ''broken'', Init = panics \<rparr>"

definition install_magic :: "Router \<Rightarrow> Session \<Rightarrow> Router option" where
  "install_magic r s = Some (r @ [(''POST'', ''/magic-link/authorize'')])"

definition magic_provider :: Provider where
  "magic_provider = \<lparr> Name = ''magic-link'', Init = install_magic \<rparr>"

definition two_strategies :: Auth where
  "two_strategies = New [] [RegisterStrategy password_provider, RegisterStrategy magic_provider]"

definition three_strategies :: Auth where
  "three_strategies = New [] [RegisterStrategy password_provider, RegisterStrategy broken_provider,
                              RegisterStrategy magic_provider]"

text \<open>
  \<open>bob_reset\<close> is \<open>bob\<close> after a reset request whose token has expired by now;
  the two reset requests submit that token, and an empty token for \<open>alice\<close>, who never
  asked for a reset.
\<close>

definition bob_reset :: User where
  "bob_reset = bob \<lparr> PasswordResetToken := ''123456'', PasswordResetTokenExpiresAt := 1699990000 \<rparr>"

definition bob_consume :: resetPasswordRequest where
  "bob_consume = \<lparr> reset_Email = ''bob@x.com'', reset_Token = ''123456'', reset_NewPassword = ''pw9'' \<rparr>"

definition alice_empty_consume :: resetPasswordRequest where
  "alice_empty_consume = \<lparr> reset_Email = ''alice@x.com'', reset_Token = [], reset_NewPassword = ''pw9'' \<rparr>"

text \<open>
  \<open>carol\<close> registers with the empty store, verifies her email with the token she was
  sent, and asks for the token once more: \<open>carol0\<close>, \<open>carol1\<close> and \<open>carol2\<close> are
  the identities persisted by the three requests.
\<close>

definition carol_register :: registerRequest where
  "carol_register = \<lparr> register_Email = ''carol@x.com'', register_Password = ''pw3'' \<rparr>"

definition carol_verify :: verifyEmailRequest where
  "carol_verify = \<lparr> verify_Email = ''carol@x.com'', verify_Token = ''7777'' \<rparr>"

definition carol0 :: User where
  "carol0 = zero_User \<lparr> ID := ''u-2'', Email := ''carol@x.com'',
                         Password := ''7777777777777777pw3'',
                         PasswordSalt := ''7777777777777777'', EmailVerifyToken := ''7777'',
                         EmailVerifyTokenExpiresAt := 1700007200 \<rparr>"

definition carol1 :: User where
  "carol1 = carol0 \<lparr> EmailVerifyToken := [], EmailVerified := True,
                      EmailVerifyTokenExpiresAt := zero_time, EmailVerifiedAt := 1700000000 \<rparr>"

definition carol2 :: User where
  "carol2 = carol1 \<lparr> EmailVerifyToken := ''7777'', EmailVerifyTokenExpiresAt := 1700007200 \<rparr>"


text \<open>
  The same process with the clock two hours and 46 minutes later, after the expiry of
  bob's verify token, and with the clock before the expiry of \<open>bob_reset\<close>'s reset
  token; the request that submits bob's verify token.
\<close>

definition late :: Process where
  "late = proc \<lparr> now := 1700009999 \<rparr>"

definition early :: Process where
  "early = proc \<lparr> now := 1699980000 \<rparr>"

definition bob_verify :: verifyEmailRequest where
  "bob_verify = \<lparr> verify_Email = ''bob@x.com'', verify_Token = ''4321'' \<rparr>"

section \<open>Evaluation of the concrete inputs\<close>

lemmas ex_defs = pw_cfg_def store_of_def lookup_email_def delivered_def smtp_down_def
  toy_IDKey_def toy_Sign_def proc_def sevens_def alice_def bob_def zero_User_def not_found_def
  bob_login_def alice_wrong_login_def carol_login_def toy_Encrypt_def float_Decrypt_def
  pl_cfg_def alice_auth_def carol_auth_def
  bob_reset_def bob_consume_def alice_empty_consume_def
  carol_register_def carol_verify_def carol0_def carol1_def carol2_def

lemmas resp_defs = send_def fail_def StatusOK_def StatusBadRequest_def
  StatusInternalServerError_def

lemma Generate_sevens4: "Generate proc 0 4 = ''7777''"
  by (simp add: Generate_def proc_def sevens_def upt_rec)

lemma Generate_sevens6: "Generate proc 0 6 = ''777777''"
  by (simp add: Generate_def proc_def sevens_def upt_rec)



lemma Generate_late4: "Generate late 0 4 = ''7777''"
  by (simp add: Generate_def late_def proc_def sevens_def upt_rec)

lemma length_Generate: "length (Generate p pos n) = n"
  by (simp add: Generate_def)

section \<open>Login of an unverified identity\<close>

text \<open>
  Claim C8.  When the identity that the login handler fetches has
  \<open>EmailVerified = False\<close>, the handler takes the verify branch whatever the
  \<^verbatim>\<open>action\<close> parameter says: the outcome is the one of \<^verbatim>\<open>action=verify\<close>, the
  identity is persisted with a fresh 4-character verify token and a 2-hour expiry, and
  the hasher's \<^verbatim>\<open>compare\<close> is not called: no such call is among the handler's calls,
  and the outcome does not depend on the hash function.
\<close>

theorem login_unverified_takes_verify_branch:
  assumes "FindFirst (store cfg) (login_Email body) = Inr u" and "\<not> EmailVerified u"
  shows "login cfg p action (Inr body) = login cfg p ''verify'' (Inr body)
       \<and> (\<forall>pw s c. CallCompare pw s c \<notin> set (snd (login cfg p action (Inr body))))
       \<and> login (cfg \<lparr> IDKey := h \<rparr>) p action (Inr body) = login cfg p action (Inr body)
       \<and> persisted (snd (login cfg p action (Inr body))) =
            [u \<lparr> EmailVerifyToken := Generate p 0 4,
                 EmailVerifyTokenExpiresAt := now p + Hour * 2 \<rparr>]"
  using assms by (auto simp: login_def Let_def split: option.splits)

theorem login_unverified_takes_verify_branch_witness:
  "FindFirst (store (pw_cfg [alice, bob])) (login_Email bob_login) = Inr bob
   \<and> \<not> EmailVerified bob
   \<and> login (pw_cfg [alice, bob]) proc [] (Inr bob_login)
       = (send ResponseSuccess StatusOK
           (Some ''your email is yet to be verified, please check your email for verification code''),
          [CallFindFirst ''bob@x.com'',
           CallUpdateOne ''bob@x.com''
             (bob \<lparr> EmailVerifyToken := ''7777'', EmailVerifyTokenExpiresAt := 1700007200 \<rparr>),
           CallNotify ''bob@x.com'' ''7777''])
   \<and> persisted (snd (login (pw_cfg [alice, bob]) proc [] (Inr bob_login)))
       = [bob \<lparr> EmailVerifyToken := ''7777'', EmailVerifyTokenExpiresAt := 1700007200 \<rparr>]"
proof -
  have f: "FindFirst (store (pw_cfg [alice, bob])) (login_Email bob_login) = Inr bob"
    by (simp add: ex_defs)
  have v: "\<not> EmailVerified bob" by (simp add: ex_defs)
  from login_unverified_takes_verify_branch [OF f v, of proc "[]" toy_IDKey] f v Generate_sevens4
  show ?thesis by (simp add: login_def Let_def Hour_def resp_defs ex_defs)
qed

section \<open>A magic-link token whose expiry is not an int64\<close>

text \<open>
  Claim C9.  In the \<^verbatim>\<open>authenticate\<close> action, when the \<^verbatim>\<open>"expiry"\<close> value of the
  decrypted claims is not an \<^verbatim>\<open>int64\<close> (another type, or missing), the type
  assertion gives the timestamp 0.  With a clock that reads a time after the epoch the
  request then fails: nothing is persisted, and when the token is present and the email
  matches, the answer is the one of an expired token, whatever expiry the token carries.
\<close>

theorem authenticate_expiry_not_int64_rejected:
  assumes "0 < now p"
      and "\<forall>n. map_of (fst (Decrypt cfg token)) ''expiry'' \<noteq> Some (VInt64 n)"
  shows "assert_int64 (map_of (fst (Decrypt cfg token)) ''expiry'') = 0
       \<and> Status (fst (authorize cfg p ''authenticate'' token (Inr body))) = ResponseError
       \<and> persisted (snd (authorize cfg p ''authenticate'' token (Inr body))) = []
       \<and> (token \<noteq> [] \<and> map_of (fst (Decrypt cfg token)) ''email'' = Some (VString (auth_Email body))
            \<longrightarrow> authorize cfg p ''authenticate'' token (Inr body) =
                  (send ResponseError StatusBadRequest
                     (Some ''validation token has expire, please try again''), [CallDecrypt token]))"
proof -
  have z: "assert_int64 (map_of (fst (Decrypt cfg token)) ''expiry'') = 0"
    using assms(2)
    by (cases "map_of (fst (Decrypt cfg token)) ''expiry''" rule: assert_int64.cases) auto
  show ?thesis using assms(1) z
    by (simp add: authorize_def Let_def send_def)
qed

theorem authenticate_expiry_not_int64_rejected_witness:
  "0 < now proc
   \<and> map_of (fst (Decrypt (pl_cfg [alice] delivered) ''tok'')) ''expiry'' = Some (VFloat64 1800000000)
   \<and> now proc < 1800000000
   \<and> authorize (pl_cfg [alice] delivered) proc ''authenticate'' ''tok'' (Inr alice_auth) =
       (send ResponseError StatusBadRequest (Some ''validation token has expire, please try again''),
        [CallDecrypt ''tok''])"
proof -
  have n: "0 < now proc" by (simp add: proc_def)
  have e: "\<forall>n. map_of (fst (Decrypt (pl_cfg [alice] delivered) ''tok'')) ''expiry'' \<noteq> Some (VInt64 n)"
    by (simp add: pl_cfg_def float_Decrypt_def)
  from authenticate_expiry_not_int64_rejected [OF n e, of alice_auth]
  show ?thesis by (simp add: pl_cfg_def float_Decrypt_def alice_auth_def proc_def)
qed

section \<open>Login: identity not found and secret mismatch\<close>

text \<open>
  Claim C5, as stated: the failure response of a login whose identity is not found is
  identical to the one of a login whose secret does not match.  It fails: the message of
  the first is the text of the store's error, the message of the second the text of the
  hasher's error.  With the in-memory store, an unknown email is answered
  \<open>doc not found\<close> and a wrong password \<open>passwords don't Match\<close>.
\<close>

theorem login_not_found_vs_mismatch_counterexample:
  "login (pw_cfg [alice, bob]) proc [] (Inr carol_login) =
     (send ResponseFail StatusBadRequest (Some ''doc not found''), [CallFindFirst ''carol@x.com''])
   \<and> login (pw_cfg [alice, bob]) proc [] (Inr alice_wrong_login) =
     (send ResponseFail StatusBadRequest (Some ''passwords don't Match''),
      [CallFindFirst ''alice@x.com'', CallCompare ''guess'' ''salt'' ''saltpw1''])
   \<and> fst (login (pw_cfg [alice, bob]) proc [] (Inr carol_login))
       \<noteq> fst (login (pw_cfg [alice, bob]) proc [] (Inr alice_wrong_login))"
  by (simp add: login_def Let_def argonHasher_compare_def errors_New_def resp_defs ex_defs)

text \<open>
  Claim C5, amended.  The two failure responses have the same status class (fail) and the
  same status code (400).  The message is the text of the underlying error in both: the
  store's lookup error when the identity is not found, \<open>passwords don't Match\<close> when the
  secret does not match the hash of a verified identity.  The responses are identical
  exactly when the store's error has that very text.
\<close>

theorem login_not_found_vs_mismatch:
  assumes "FindFirst (store cfg) (login_Email b1) = Inl err"
      and "FindFirst (store cfg) (login_Email b2) = Inr u"
      and "EmailVerified u" and "action \<noteq> ''verify''"
      and "IDKey cfg (login_Password b2) (PasswordSalt u) \<noteq> Password u"
  shows "Status (fst (login cfg p a1 (Inr b1))) = ResponseFail
       \<and> Status (fst (login cfg p action (Inr b2))) = ResponseFail
       \<and> StatusCode (fst (login cfg p a1 (Inr b1))) = StatusBadRequest
       \<and> StatusCode (fst (login cfg p action (Inr b2))) = StatusBadRequest
       \<and> Message (fst (login cfg p a1 (Inr b1))) = Some (Error err)
       \<and> Message (fst (login cfg p action (Inr b2))) = Some ''passwords don't Match''
       \<and> (fst (login cfg p a1 (Inr b1)) = fst (login cfg p action (Inr b2))
            \<longleftrightarrow> Error err = ''passwords don't Match'')"
  using assms
  by (simp add: login_def Let_def argonHasher_compare_def errors_New_def send_def fail_def)

theorem login_not_found_vs_mismatch_witness:
  "FindFirst (store (pw_cfg [alice, bob])) (login_Email carol_login) = Inl not_found
   \<and> FindFirst (store (pw_cfg [alice, bob])) (login_Email alice_wrong_login) = Inr alice
   \<and> EmailVerified alice
   \<and> IDKey (pw_cfg [alice, bob]) (login_Password alice_wrong_login) (PasswordSalt alice) \<noteq> Password alice
   \<and> Status (fst (login (pw_cfg [alice, bob]) proc [] (Inr carol_login))) = ResponseFail
   \<and> Status (fst (login (pw_cfg [alice, bob]) proc [] (Inr alice_wrong_login))) = ResponseFail
   \<and> Message (fst (login (pw_cfg [alice, bob]) proc [] (Inr carol_login))) = Some ''doc not found''"
proof -
  have 1: "FindFirst (store (pw_cfg [alice, bob])) (login_Email carol_login) = Inl not_found"
    by (simp add: ex_defs)
  have 2: "FindFirst (store (pw_cfg [alice, bob])) (login_Email alice_wrong_login) = Inr alice"
    by (simp add: ex_defs)
  have 3: "EmailVerified alice" by (simp add: ex_defs)
  have 4: "[] \<noteq> ''verify''" by simp
  have 5: "IDKey (pw_cfg [alice, bob]) (login_Password alice_wrong_login) (PasswordSalt alice) \<noteq> Password alice"
    by (simp add: ex_defs)
  from login_not_found_vs_mismatch [OF 1 2 3 4 5, of proc "[]"] 1 2 3 5
  show ?thesis by (simp add: not_found_def)
qed

section \<open>Failures of the notifier\<close>

text \<open>
  Claim C6, as stated: an operation whose notifier call returns an error reports failure.
  It fails for the passwordless strategy: the default and the resend action drop the
  notifier's result and answer success while the notifier is down.
\<close>

theorem notifier_failure_counterexample:
  "pl_notify (pl_cfg [alice] smtp_down) ''alice@x.com'' ''sealed'' = Some (ErrorString 2 ''smtp down'')
   \<and> authorize (pl_cfg [alice] smtp_down) proc [] [] (Inr alice_auth) =
       (send ResponseSuccess StatusOK (Some ''please check your email for authentication link''),
        [CallFirst ''alice@x.com'',
         CallEncrypt [(''email'', VString ''alice@x.com''), (''expiry'', VInt64 1700000600)],
         CallNotify ''alice@x.com'' ''sealed''])
   \<and> authorize (pl_cfg [alice] smtp_down) proc ''resend'' [] (Inr alice_auth) =
       (send ResponseSuccess StatusOK None,
        [CallFirst ''alice@x.com'',
         CallEncrypt [(''email'', VString ''alice@x.com''), (''expiry'', VInt64 1700000600)],
         CallNotify ''alice@x.com'' ''sealed''])"
  by (simp add: authorize_def Let_def tokenValues_of_def Minute_def resp_defs ex_defs)

lemma login_notify_failure:
  "(e, t) \<in> set (notified (snd (login cfg p a d))) \<longrightarrow> notify cfg e t = Some err
     \<longrightarrow> fst (login cfg p a d) = fail err"
  by (simp add: login_def Let_def split: sum.split option.split)

lemma register_notify_failure:
  "(e, t) \<in> set (notified (snd (register cfg p d))) \<longrightarrow> notify cfg e t = Some err
     \<longrightarrow> fst (register cfg p d) = fail err"
  by (simp add: register_def Let_def split: sum.split option.split)

lemma password_reset_notify_failure:
  "(e, t) \<in> set (notified (snd (password_reset cfg p a d))) \<longrightarrow> notify cfg e t = Some err
     \<longrightarrow> fst (password_reset cfg p a d) = fail err"
  by (simp add: password_reset_def Let_def split: sum.split option.split)

lemma email_verify_notify_failure:
  "(e, t) \<in> set (notified (snd (email_verify cfg p a d))) \<longrightarrow> notify cfg e t = Some err
     \<longrightarrow> fst (email_verify cfg p a d) = fail err"
  by (simp add: email_verify_def Let_def split: sum.split option.split)

lemma authorize_ignores_notify:
  "authorize (cfg \<lparr> pl_notify := n \<rparr>) p a t d = authorize cfg p a t d"
  by (simp add: authorize_def Let_def cong: sum.case_cong if_cong option.case_cong)

text \<open>
  Claim C6, amended.  In the password strategy (login, register, password-reset,
  email-verify), when a call of the notifier made by the handler returns an error, the
  response is the failure response carrying that error's text, never a success.  The
  passwordless handler drops what the notifier returns: its outcome is the same for every
  notifier.
\<close>

theorem password_notifier_failure_reported:
  "((e, t) \<in> set (notified (snd (serve cfg p r))) \<and> notify cfg e t = Some err
      \<longrightarrow> fst (serve cfg p r) = fail err \<and> Status (fst (serve cfg p r)) = ResponseFail)
   \<and> authorize (pcfg \<lparr> pl_notify := n \<rparr>) p a tok d = authorize pcfg p a tok d"
proof (cases r)
  case (Login a' d') then show ?thesis
    using login_notify_failure [of e t cfg p a' d' err]
    by (auto simp: authorize_ignores_notify fail_def send_def)
next
  case (Register d') then show ?thesis
    using register_notify_failure [of e t cfg p d' err]
    by (auto simp: authorize_ignores_notify fail_def send_def)
next
  case (PasswordReset a' d') then show ?thesis
    using password_reset_notify_failure [of e t cfg p a' d' err]
    by (auto simp: authorize_ignores_notify fail_def send_def)
next
  case (EmailVerify a' d') then show ?thesis
    using email_verify_notify_failure [of e t cfg p a' d' err]
    by (auto simp: authorize_ignores_notify fail_def send_def)
qed

theorem password_notifier_failure_reported_witness:
  "(''bob@x.com'', ''7777'') \<in> set (notified (snd (serve ((pw_cfg [alice, bob]) \<lparr> notify := smtp_down \<rparr>) proc (Login [] (Inr bob_login)))))
   \<and> notify ((pw_cfg [alice, bob]) \<lparr> notify := smtp_down \<rparr>) ''bob@x.com'' ''7777'' = Some (ErrorString 2 ''smtp down'')
   \<and> fst (serve ((pw_cfg [alice, bob]) \<lparr> notify := smtp_down \<rparr>) proc (Login [] (Inr bob_login)))
       = send ResponseFail StatusBadRequest (Some ''smtp down'')"
proof -
  have 1: "(''bob@x.com'', ''7777'') \<in> set (notified (snd (serve ((pw_cfg [alice, bob]) \<lparr> notify := smtp_down \<rparr>) proc (Login [] (Inr bob_login)))))"
    using Generate_sevens4 by (simp add: login_def Let_def ex_defs)
  have 2: "notify ((pw_cfg [alice, bob]) \<lparr> notify := smtp_down \<rparr>) ''bob@x.com'' ''7777'' = Some (ErrorString 2 ''smtp down'')"
    by (simp add: smtp_down_def)
  from password_notifier_failure_reported
         [of "''bob@x.com''" "''7777''" "(pw_cfg [alice, bob]) \<lparr> notify := smtp_down \<rparr>" proc
             "Login [] (Inr bob_login)" "ErrorString 2 ''smtp down''"] 1 2
  show ?thesis by (simp add: fail_def)
qed

section \<open>Build\<close>

text \<open>
  Claim C7, as stated: \<^verbatim>\<open>Build\<close> returns an error if and only if the installation of
  some strategy fails.  It fails: \<^verbatim>\<open>Init\<close> has no error result and \<^verbatim>\<open>Build\<close> ends
  with \<^verbatim>\<open>return nil\<close>.  The only way an installation fails is a panic, and then
  \<^verbatim>\<open>Build\<close> panics too; it does not return an error.
\<close>

theorem Build_counterexample:
  "Init broken_provider (router (New [] [RegisterStrategy broken_provider]))
        (session (New [] [RegisterStrategy broken_provider])) = None
   \<and> providers (New [] [RegisterStrategy broken_provider]) = [broken_provider]
   \<and> fst (Build (New [] [RegisterStrategy broken_provider])) = Panic"
  by (simp add: Build_def New_def RegisterStrategy_def broken_provider_def panics_def)

lemma range_providers_acc:
  "range_providers ps s r tr =
     (fst (range_providers ps s r []), fst (snd (range_providers ps s r [])),
      tr @ snd (snd (range_providers ps s r [])))"
proof (induction ps arbitrary: r tr)
  case Nil
  show ?case by simp
next
  case (Cons p ps)
  show ?case
  proof (cases "Init p r s")
    case None
    then show ?thesis by simp
  next
    case (Some r1)
    have "range_providers (p # ps) s r tr = range_providers ps s r1 (tr @ [(Name p, r, s)])"
      using Some by simp
    also have "\<dots> = (fst (range_providers ps s r1 []), fst (snd (range_providers ps s r1 [])),
        (tr @ [(Name p, r, s)]) @ snd (snd (range_providers ps s r1 [])))"
      by (rule Cons.IH)
    finally have a: "range_providers (p # ps) s r tr =
        (fst (range_providers ps s r1 []), fst (snd (range_providers ps s r1 [])),
         tr @ (Name p, r, s) # snd (snd (range_providers ps s r1 [])))"
      by simp
    have "range_providers (p # ps) s r [] = range_providers ps s r1 [(Name p, r, s)]"
      using Some by simp
    also have "\<dots> = (fst (range_providers ps s r1 []), fst (snd (range_providers ps s r1 [])),
        [(Name p, r, s)] @ snd (snd (range_providers ps s r1 [])))"
      by (rule Cons.IH)
    finally have b: "range_providers (p # ps) s r [] =
        (fst (range_providers ps s r1 []), fst (snd (range_providers ps s r1 [])),
         (Name p, r, s) # snd (snd (range_providers ps s r1 [])))"
      by simp
    show ?thesis by (simp only: a b fst_conv snd_conv)
  qed
qed

lemma range_providers_panic:
  "Init p r s = None \<Longrightarrow> range_providers (p # ps) s r [] = (False, r, [(Name p, r, s)])"
  by simp

lemma range_providers_step:
  "Init p r s = Some r1 \<Longrightarrow> range_providers ps s r1 [] = (ok, r', t) \<Longrightarrow>
     range_providers (p # ps) s r [] = (ok, r', (Name p, r, s) # t)"
  using range_providers_acc [of ps s r1 "[(Name p, r, s)]"] by simp

lemma range_providers_trace:
  "range_providers ps s r [] = (ok, r', t) \<Longrightarrow>
     length t \<le> length ps
     \<and> (\<forall>i < length t. fst (t ! i) = Name (ps ! i) \<and> snd (snd (t ! i)) = s)
     \<and> (t \<noteq> [] \<longrightarrow> given_router (t ! 0) = r)
     \<and> (\<forall>i. Suc i < length t \<longrightarrow> Init (ps ! i) (given_router (t ! i)) s = Some (given_router (t ! Suc i)))
     \<and> (ok \<longrightarrow> length t = length ps
              \<and> (\<forall>i < length t. Init (ps ! i) (given_router (t ! i)) s \<noteq> None)
              \<and> (ps = [] \<longrightarrow> r' = r)
              \<and> (ps \<noteq> [] \<longrightarrow> Init (last ps) (given_router (last t)) s = Some r'))
     \<and> (\<not> ok \<longrightarrow> t \<noteq> [] \<and> Init (ps ! (length t - 1)) (given_router (last t)) s = None)"
proof (induction ps arbitrary: r ok r' t)
  case Nil
  then show ?case by auto
next
  case (Cons p ps)
  show ?case
  proof (cases "Init p r s")
    case None
    with Cons.prems have "ok = False" "r' = r" "t = [(Name p, r, s)]" by auto
    with None show ?thesis by (simp add: given_router_def)
  next
    case (Some r1)
    obtain ok1 r1' t1 where rp: "range_providers ps s r1 [] = (ok1, r1', t1)"
      by (cases "range_providers ps s r1 []") auto
    from range_providers_step [OF Some rp] Cons.prems
    have eq: "ok = ok1" "r' = r1'" "t = (Name p, r, s) # t1" by auto
    note ih = Cons.IH [OF rp]
    have 1: "length t \<le> length (p # ps)" using ih eq by simp
    have 2: "\<forall>i < length t. fst (t ! i) = Name ((p # ps) ! i) \<and> snd (snd (t ! i)) = s"
      using ih eq by (auto simp: nth_Cons')
    have 3: "t \<noteq> [] \<longrightarrow> given_router (t ! 0) = r" using eq by (simp add: given_router_def)
    have 4: "\<forall>i. Suc i < length t \<longrightarrow>
               Init ((p # ps) ! i) (given_router (t ! i)) s = Some (given_router (t ! Suc i))"
    proof (intro allI impI)
      fix i assume a: "Suc i < length t"
      show "Init ((p # ps) ! i) (given_router (t ! i)) s = Some (given_router (t ! Suc i))"
      proof (cases i)
        case 0
        from a eq 0 have "t1 \<noteq> []" by auto
        with ih have "given_router (t1 ! 0) = r1" by blast
        with 0 eq Some show ?thesis by (simp add: given_router_def)
      next
        case (Suc j)
        with a eq have "Suc j < length t1" by simp
        with ih have "Init (ps ! j) (given_router (t1 ! j)) s = Some (given_router (t1 ! Suc j))"
          by blast
        with Suc eq show ?thesis by simp
      qed
    qed
    have 5: "ok \<longrightarrow> length t = length (p # ps)
              \<and> (\<forall>i < length t. Init ((p # ps) ! i) (given_router (t ! i)) s \<noteq> None)
              \<and> (p # ps = [] \<longrightarrow> r' = r)
              \<and> (p # ps \<noteq> [] \<longrightarrow> Init (last (p # ps)) (given_router (last t)) s = Some r')"
    proof
      assume ok
      with eq have ok1: ok1 by simp
      from ih ok1 have l: "length t1 = length ps" by blast
      from ih ok1 have n: "\<forall>i < length t1. Init (ps ! i) (given_router (t1 ! i)) s \<noteq> None" by blast
      have a: "length t = length (p # ps)" using l eq by simp
      have b: "\<forall>i < length t. Init ((p # ps) ! i) (given_router (t ! i)) s \<noteq> None"
      proof (intro allI impI)
        fix i assume "i < length t"
        then show "Init ((p # ps) ! i) (given_router (t ! i)) s \<noteq> None"
          using n eq Some by (cases i) (auto simp: given_router_def)
      qed
      have c: "Init (last (p # ps)) (given_router (last t)) s = Some r'"
      proof (cases "ps = []")
        case True
        with l have "t1 = []" by simp
        moreover from ih ok1 True have "r1' = r1" by blast
        ultimately show ?thesis using True eq Some by (simp add: given_router_def)
      next
        case False
        with l have "t1 \<noteq> []" by auto
        moreover from ih ok1 False have "Init (last ps) (given_router (last t1)) s = Some r1'" by blast
        ultimately show ?thesis using False eq by simp
      qed
      from a b c show "length t = length (p # ps)
              \<and> (\<forall>i < length t. Init ((p # ps) ! i) (given_router (t ! i)) s \<noteq> None)
              \<and> (p # ps = [] \<longrightarrow> r' = r)
              \<and> (p # ps \<noteq> [] \<longrightarrow> Init (last (p # ps)) (given_router (last t)) s = Some r')"
        by simp
    qed
    have 6: "\<not> ok \<longrightarrow> t \<noteq> [] \<and> Init ((p # ps) ! (length t - 1)) (given_router (last t)) s = None"
    proof
      assume "\<not> ok"
      with eq have "\<not> ok1" by simp
      with ih have ne: "t1 \<noteq> []" and pn: "Init (ps ! (length t1 - 1)) (given_router (last t1)) s = None"
        by blast+
      from ne have "length t1 - 1 = length t1 - Suc 0" "0 < length t1" by auto
      with ne pn eq show "t \<noteq> [] \<and> Init ((p # ps) ! (length t - 1)) (given_router (last t)) s = None"
        by (simp add: nth_Cons')
    qed
    from 1 2 3 4 5 6 show ?thesis by blast
  qed
qed

text \<open>
  Claim C7, amended.  \<^verbatim>\<open>Build\<close> never returns a non-nil error.  It invokes the
  \<^verbatim>\<open>Init\<close> hooks of the registered strategies in the order of registration, every
  one with the session of the \<^verbatim>\<open>Auth\<close> and with the shared router: the first hook
  is given the router of the \<^verbatim>\<open>Auth\<close>, every later hook the router as the hook
  before it left it.  \<^verbatim>\<open>Build\<close> returns nil exactly when every registered hook was
  invoked and none panicked, and the router is then the one the last hook left.  It
  panics exactly when an invoked hook panics; that hook is the last one invoked.
\<close>

theorem Build_runs_hooks_in_order:
  "Build_result a \<noteq> Return (Some e)
   \<and> length (Build_calls a) \<le> length (providers a)
   \<and> (\<forall>i < length (Build_calls a).
          fst (Build_calls a ! i) = Name (providers a ! i)
          \<and> snd (snd (Build_calls a ! i)) = session a)
   \<and> (Build_calls a \<noteq> [] \<longrightarrow> given_router (Build_calls a ! 0) = router a)
   \<and> (\<forall>i. Suc i < length (Build_calls a) \<longrightarrow>
          Init (providers a ! i) (given_router (Build_calls a ! i)) (session a) =
            Some (given_router (Build_calls a ! Suc i)))
   \<and> (Build_result a = Return None \<longleftrightarrow>
          length (Build_calls a) = length (providers a)
          \<and> (\<forall>i < length (Build_calls a).
                 Init (providers a ! i) (given_router (Build_calls a ! i)) (session a) \<noteq> None))
   \<and> (Build_result a = Panic \<longleftrightarrow>
          (\<exists>i < length (Build_calls a).
                 Init (providers a ! i) (given_router (Build_calls a ! i)) (session a) = None))
   \<and> (Build_result a = Return None \<longrightarrow>
          (providers a = [] \<longrightarrow> Build_router a = router a)
          \<and> (providers a \<noteq> [] \<longrightarrow>
                 Init (last (providers a)) (given_router (last (Build_calls a))) (session a) =
                   Some (Build_router a)))
   \<and> (Build_result a = Panic \<longrightarrow>
          Build_calls a \<noteq> []
          \<and> Init (providers a ! (length (Build_calls a) - 1))
                (given_router (last (Build_calls a))) (session a) = None)"
proof -
  obtain ok r' t where rp: "range_providers (providers a) (session a) (router a) [] = (ok, r', t)"
    by (cases "range_providers (providers a) (session a) (router a) []") auto
  have res: "Build_result a = (if ok then Return None else Panic)"
    using rp by (simp add: Build_result_def Build_def)
  have rtr: "Build_router a = r'"
    using rp by (cases ok) (simp_all add: Build_router_def Build_def)
  have cls: "Build_calls a = t"
    using rp by (cases ok) (simp_all add: Build_calls_def Build_def)
  note tr = range_providers_trace [OF rp]
  have 1: "Build_result a \<noteq> Return (Some e)" using res by simp
  have 2: "length t \<le> length (providers a)" using tr by blast
  have 3: "\<forall>i < length t. fst (t ! i) = Name (providers a ! i) \<and> snd (snd (t ! i)) = session a"
    using tr by blast
  have 4: "t \<noteq> [] \<longrightarrow> given_router (t ! 0) = router a" using tr by blast
  have 5: "\<forall>i. Suc i < length t \<longrightarrow>
             Init (providers a ! i) (given_router (t ! i)) (session a) = Some (given_router (t ! Suc i))"
    using tr by blast
  have okd: "ok \<longrightarrow> length t = length (providers a)
              \<and> (\<forall>i < length t. Init (providers a ! i) (given_router (t ! i)) (session a) \<noteq> None)"
    using tr by blast
  have okr: "ok \<longrightarrow> (providers a = [] \<longrightarrow> r' = router a)
              \<and> (providers a \<noteq> [] \<longrightarrow>
                    Init (last (providers a)) (given_router (last t)) (session a) = Some r')"
    using tr by blast
  have nok: "\<not> ok \<longrightarrow> t \<noteq> [] \<and> Init (providers a ! (length t - 1)) (given_router (last t)) (session a) = None"
    using tr by blast
  have pan: "\<not> ok \<longrightarrow> (\<exists>i < length t. Init (providers a ! i) (given_router (t ! i)) (session a) = None)"
  proof
    assume "\<not> ok"
    with nok have ne: "t \<noteq> []"
      and n: "Init (providers a ! (length t - 1)) (given_router (last t)) (session a) = None"
      by blast+
    from ne have "length t - 1 < length t" by (cases t) auto
    moreover from ne n have "Init (providers a ! (length t - 1)) (given_router (t ! (length t - 1))) (session a) = None"
      by (simp add: last_conv_nth)
    ultimately show "\<exists>i < length t. Init (providers a ! i) (given_router (t ! i)) (session a) = None"
      by blast
  qed
  have 6: "Build_result a = Return None \<longleftrightarrow>
             length t = length (providers a)
             \<and> (\<forall>i < length t. Init (providers a ! i) (given_router (t ! i)) (session a) \<noteq> None)"
    using res okd pan by (cases ok) auto
  have 7: "Build_result a = Panic \<longleftrightarrow>
             (\<exists>i < length t. Init (providers a ! i) (given_router (t ! i)) (session a) = None)"
    using res okd pan by (cases ok) auto
  have 8: "Build_result a = Return None \<longrightarrow>
             (providers a = [] \<longrightarrow> r' = router a)
             \<and> (providers a \<noteq> [] \<longrightarrow>
                    Init (last (providers a)) (given_router (last t)) (session a) = Some r')"
    using res okr by (cases ok) auto
  have 9: "Build_result a = Panic \<longrightarrow>
             t \<noteq> [] \<and> Init (providers a ! (length t - 1)) (given_router (last t)) (session a) = None"
    using res nok by (cases ok) auto
  from 1 2 3 4 5 6 7 8 9 show ?thesis unfolding rtr cls by blast
qed

theorem Build_runs_hooks_in_order_witness:
  "providers two_strategies = [password_provider, magic_provider]
   \<and> Build two_strategies =
       (Return None, [(''POST'', ''/login''), (''POST'', ''/magic-link/authorize'')],
        [(''password'', [], ServerSession),
         (''magic-link'', [(''POST'', ''/login'')], ServerSession)])
   \<and> Init password_provider [] ServerSession = Some [(''POST'', ''/login'')]
   \<and> Init magic_provider [(''POST'', ''/login'')] ServerSession =
       Some [(''POST'', ''/login''), (''POST'', ''/magic-link/authorize'')]
   \<and> providers three_strategies = [password_provider, broken_provider, magic_provider]
   \<and> Build_result three_strategies = Panic
   \<and> Build_calls three_strategies =
       [(''password'', [], ServerSession), (''broken'', [(''POST'', ''/login'')], ServerSession)]
   \<and> Init broken_provider [(''POST'', ''/login'')] ServerSession = None"
proof -
  have ps: "providers two_strategies = [password_provider, magic_provider]"
    by (simp add: two_strategies_def New_def RegisterStrategy_def)
  have b: "Build two_strategies =
       (Return None, [(''POST'', ''/login''), (''POST'', ''/magic-link/authorize'')],
        [(''password'', [], ServerSession),
         (''magic-link'', [(''POST'', ''/login'')], ServerSession)])"
    by (simp add: Build_def two_strategies_def New_def RegisterStrategy_def password_provider_def
          magic_provider_def install_login_def install_magic_def)
  have ps3: "providers three_strategies = [password_provider, broken_provider, magic_provider]"
    by (simp add: three_strategies_def New_def RegisterStrategy_def)
  have b3: "Build three_strategies =
       (Panic, [(''POST'', ''/login'')],
        [(''password'', [], ServerSession), (''broken'', [(''POST'', ''/login'')], ServerSession)])"
    by (simp add: Build_def three_strategies_def New_def RegisterStrategy_def password_provider_def
          magic_provider_def broken_provider_def panics_def install_login_def install_magic_def)
  from Build_runs_hooks_in_order [of two_strategies] Build_runs_hooks_in_order [of three_strategies]
       ps b ps3 b3
  show ?thesis
    by (simp add: Build_result_def Build_calls_def password_provider_def magic_provider_def
          broken_provider_def panics_def install_login_def install_magic_def)
qed

section \<open>Password reset with an expired token\<close>

text \<open>
  Claim C1 says that the expired branch of the password-reset consume path sends the new
  reset token to the identity's email.  The handler passes \<^verbatim>\<open>user.EmailVerifyToken\<close>
  to the notifier instead.  For \<open>bob_reset\<close>, whose reset token \<open>123456\<close> has
  expired, the request with that token persists the new reset token \<open>777777\<close> with
  the expiry of one hour and answers that the token expired, and the notifier is given
  bob's email-verify token \<open>4321\<close>.
\<close>

theorem password_reset_expired_notifies_verify_token:
  "FindFirst (store (pw_cfg [alice, bob_reset])) ''bob@x.com'' = Inr bob_reset
   \<and> reset_Token bob_consume = PasswordResetToken bob_reset
   \<and> now proc > PasswordResetTokenExpiresAt bob_reset
   \<and> password_reset (pw_cfg [alice, bob_reset]) proc [] (Inr bob_consume) =
       (send ResponseFail StatusBadRequest (Some ''token is expired, a new one has been sent to your mail''),
        [CallFindFirst ''bob@x.com'',
         CallUpdateOne ''bob@x.com''
           (bob_reset \<lparr> PasswordResetToken := ''777777'', PasswordResetTokenExpiresAt := 1700003600 \<rparr>),
         CallNotify ''bob@x.com'' ''4321''])
   \<and> EmailVerifyToken bob_reset = ''4321''"
  using Generate_sevens6
  by (simp add: password_reset_def Let_def Hour_def resp_defs ex_defs)

section \<open>Consuming with an empty token\<close>

text \<open>
  Claim C10 says that an empty submitted token against an empty stored token passes the
  check and reaches the expiry branch, which generates, persists and emails a fresh
  token.  In the password-reset handler the branch emails \<^verbatim>\<open>user.EmailVerifyToken\<close>:
  for \<open>alice\<close>, who holds no token of either kind, the fresh reset token
  \<open>777777\<close> is persisted and the notifier is given the empty string.
\<close>

theorem password_reset_empty_token_notifies_nothing:
  "FindFirst (store (pw_cfg [alice, bob])) ''alice@x.com'' = Inr alice
   \<and> PasswordResetToken alice = []
   \<and> PasswordResetTokenExpiresAt alice = zero_time
   \<and> password_reset (pw_cfg [alice, bob]) proc [] (Inr alice_empty_consume) =
       (send ResponseFail StatusBadRequest (Some ''token is expired, a new one has been sent to your mail''),
        [CallFindFirst ''alice@x.com'',
         CallUpdateOne ''alice@x.com''
           (alice \<lparr> PasswordResetToken := ''777777'', PasswordResetTokenExpiresAt := 1700003600 \<rparr>),
         CallNotify ''alice@x.com'' []])"
  using Generate_sevens6
  by (simp add: password_reset_def Let_def Hour_def resp_defs ex_defs zero_time_def)

section \<open>The passwordless default action for an unseen email\<close>

text \<open>
  Claim C2 says that the default action creates and persists a bare identity when none
  exists for the email.  The handler saves only when
  \<^verbatim>\<open>errors.Is(err, errors.New("doc not found"))\<close>, and the target of that test is
  allocated by the test itself, so no error of the store is it.  For the unseen email of
  \<open>carol\<close> the store answers its not-found error, nothing is saved, and the response is
  the success response.
\<close>

theorem default_action_unseen_email_not_saved:
  "First (pl_store (pl_cfg [alice] delivered)) ''carol@x.com'' = Inl (ErrorString 1 ''doc not found'')
   \<and> errors_New proc ''doc not found'' = ErrorString 100 ''doc not found''
   \<and> authorize (pl_cfg [alice] delivered) proc [] [] (Inr carol_auth) =
       (send ResponseSuccess StatusOK (Some ''please check your email for authentication link''),
        [CallFirst ''carol@x.com'',
         CallEncrypt [(''email'', VString ''carol@x.com''), (''expiry'', VInt64 1700000600)],
         CallNotify ''carol@x.com'' ''sealed''])
   \<and> persisted (snd (authorize (pl_cfg [alice] delivered) proc [] [] (Inr carol_auth))) = []"
  by (simp add: authorize_def Let_def tokenValues_of_def Minute_def errors_New_def resp_defs ex_defs)

text \<open>
  The same for every store and every input: an error that was allocated before the call
  of \<^verbatim>\<open>errors.New\<close> does not have the fresh address on its unwrap chain, so the
  actions other than \<^verbatim>\<open>authenticate\<close> hand no identity to the store.
\<close>

lemma errors_Is_chain: "errors_Is err target \<Longrightarrow> addr target \<in> set (chain err)"
  by (induction err) auto

lemma default_action_never_saves:
  assumes "a \<noteq> ''authenticate''"
      and "\<forall>err. First (pl_store cfg) (auth_Email body) = Inl err \<longrightarrow> fresh p \<notin> set (chain err)"
  shows "persisted (snd (authorize cfg p a t (Inr body))) = []"
proof (cases "First (pl_store cfg) (auth_Email body)")
  case (Inl err)
  with assms(2) have "\<not> errors_Is err (errors_New p ''doc not found'')"
    using errors_Is_chain [of err "errors_New p ''doc not found''"] by (auto simp: errors_New_def)
  with Inl assms(1) show ?thesis by (simp add: authorize_def Let_def)
next
  case (Inr u)
  with assms(1) show ?thesis by (simp add: authorize_def Let_def)
qed

section \<open>Verified identities and verify tokens\<close>






lemma not_found_persists_nothing:
  "FindFirst (store cfg) (login_Email lb) = Inl e \<Longrightarrow> persisted (snd (login cfg p a (Inr lb))) = []"
  "FindFirst (store cfg) (reset_Email rb) = Inl e \<Longrightarrow> persisted (snd (password_reset cfg p a (Inr rb))) = []"
  "FindFirst (store cfg) (verify_Email vb) = Inl e \<Longrightarrow> persisted (snd (email_verify cfg p a (Inr vb))) = []"
  by (simp_all add: login_def password_reset_def email_verify_def)

lemma decode_failure_persists_nothing:
  "persisted (snd (login cfg p a (Inl e))) = []"
  "persisted (snd (password_reset cfg p a (Inl e))) = []"
  "persisted (snd (email_verify cfg p a (Inl e))) = []"
  by (simp_all add: login_def password_reset_def email_verify_def)



section \<open>Tokens and their expiries\<close>

text \<open>
  Claim C4, as stated: every path that consumes a token, the success path and the path
  that regenerates after the expiry, clears the stored token and its expiry.  It fails
  on the regeneration path, which stores a fresh token and a fresh expiry in their place:
  bob submits his verify token after its expiry, and the identity persisted holds the
  token \<open>7777\<close> with an expiry two hours ahead.
\<close>

theorem consumption_keeps_token_counterexample:
  "FindFirst (store (pw_cfg [alice, bob])) (verify_Email bob_verify) = Inr bob
   \<and> verify_Token bob_verify = EmailVerifyToken bob
   \<and> now late > EmailVerifyTokenExpiresAt bob
   \<and> email_verify (pw_cfg [alice, bob]) late [] (Inr bob_verify) =
       (send ResponseFail StatusBadRequest (Some ''token is expired, a new one has been sent to your mail''),
        [CallFindFirst ''bob@x.com'',
         CallUpdateOne ''bob@x.com''
           (bob \<lparr> EmailVerifyToken := ''7777'', EmailVerifyTokenExpiresAt := 1700017199 \<rparr>),
         CallNotify ''bob@x.com'' ''7777''])
   \<and> EmailVerifyToken (bob \<lparr> EmailVerifyToken := ''7777'', EmailVerifyTokenExpiresAt := 1700017199 \<rparr>) \<noteq> []
   \<and> EmailVerifyTokenExpiresAt (bob \<lparr> EmailVerifyToken := ''7777'', EmailVerifyTokenExpiresAt := 1700017199 \<rparr>) \<noteq> zero_time"
  using Generate_late4
  by (simp add: email_verify_def Let_def Hour_def zero_time_def resp_defs ex_defs late_def bob_verify_def)

lemma Generate_nonempty: "0 < n \<Longrightarrow> Generate p pos n \<noteq> []"
  by (simp add: Generate_def)

lemma fresh_expiry_nonzero:
  "zero_time < now p \<Longrightarrow> now p + Hour * 2 \<noteq> zero_time \<and> now p + Hour * 1 \<noteq> zero_time"
  by (simp add: Hour_def)

lemma login_issue:
  "FindFirst (store cfg) (login_Email b) = Inr u \<Longrightarrow> \<not> EmailVerified u \<or> a = ''verify'' \<Longrightarrow>
     persisted (snd (login cfg p a (Inr b))) =
       [u \<lparr> EmailVerifyToken := Generate p 0 4, EmailVerifyTokenExpiresAt := now p + Hour * 2 \<rparr>]"
  by (auto simp: login_def Let_def split: option.split)

lemma register_issue:
  "map (\<lambda>u. (EmailVerifyToken u, EmailVerifyTokenExpiresAt u)) (persisted (snd (register cfg p (Inr b))))
     = [(Generate p 16 4, now p + Hour * 2)]"
  by (simp add: register_def Let_def split: option.split)

lemma reset_issue:
  "FindFirst (store cfg) (reset_Email b) = Inr u \<Longrightarrow>
     persisted (snd (password_reset cfg p ''reset'' (Inr b))) =
       [u \<lparr> PasswordResetToken := Generate p 0 6, PasswordResetTokenExpiresAt := now p + Hour * 1 \<rparr>]"
  by (simp add: password_reset_def Let_def split: option.split)

lemma resend_issue:
  "FindFirst (store cfg) (verify_Email b) = Inr u \<Longrightarrow>
     persisted (snd (email_verify cfg p ''resend'' (Inr b))) =
       [u \<lparr> EmailVerifyToken := Generate p 0 4, EmailVerifyTokenExpiresAt := now p + Hour * 2 \<rparr>]"
  by (simp add: email_verify_def Let_def split: option.split)

lemma magic_link_issue:
  "CallEncrypt m \<in> set (snd (authorize pcfg p a t d)) \<Longrightarrow>
     map_of m ''expiry'' = Some (VInt64 (now p + Minute * 10))"
  by (auto simp: authorize_def Let_def tokenValues_of_def split: sum.splits option.splits if_splits)

lemma verify_consume:
  "FindFirst (store cfg) (verify_Email b) = Inr u \<Longrightarrow> a \<noteq> ''resend'' \<Longrightarrow>
   verify_Token b = EmailVerifyToken u \<Longrightarrow> \<not> now p > EmailVerifyTokenExpiresAt u \<Longrightarrow>
     persisted (snd (email_verify cfg p a (Inr b))) =
       [u \<lparr> EmailVerifyToken := [], EmailVerified := True,
            EmailVerifyTokenExpiresAt := zero_time, EmailVerifiedAt := now p \<rparr>]"
  by (simp add: email_verify_def Let_def split: option.split)

lemma verify_expired:
  "FindFirst (store cfg) (verify_Email b) = Inr u \<Longrightarrow> a \<noteq> ''resend'' \<Longrightarrow>
   verify_Token b = EmailVerifyToken u \<Longrightarrow> now p > EmailVerifyTokenExpiresAt u \<Longrightarrow>
     persisted (snd (email_verify cfg p a (Inr b))) =
       [u \<lparr> EmailVerifyToken := Generate p 0 4, EmailVerifyTokenExpiresAt := now p + Hour * 2 \<rparr>]"
  by (simp add: email_verify_def Let_def split: option.split)

lemma reset_consume:
  "FindFirst (store cfg) (reset_Email b) = Inr u \<Longrightarrow> a \<noteq> ''reset'' \<Longrightarrow>
   reset_Token b = PasswordResetToken u \<Longrightarrow> \<not> now p > PasswordResetTokenExpiresAt u \<Longrightarrow>
     map PasswordResetToken (persisted (snd (password_reset cfg p a (Inr b)))) = [[]]"
  by (simp add: password_reset_def Let_def split: option.split)

lemma reset_expired:
  "FindFirst (store cfg) (reset_Email b) = Inr u \<Longrightarrow> a \<noteq> ''reset'' \<Longrightarrow>
   reset_Token b = PasswordResetToken u \<Longrightarrow> now p > PasswordResetTokenExpiresAt u \<Longrightarrow>
     persisted (snd (password_reset cfg p a (Inr b))) =
       [u \<lparr> PasswordResetToken := Generate p 0 6, PasswordResetTokenExpiresAt := now p + Hour * 1 \<rparr>]"
  by (simp add: password_reset_def Let_def split: option.split)

lemma login_paired:
  assumes "zero_time < now p" "FindFirst (store cfg) (login_Email b) = Inr u" "paired u"
  shows "\<forall>u' \<in> set (persisted (snd (login cfg p a (Inr b)))). paired u'"
  using assms
  by (simp add: login_def Let_def paired_def Hour_def split: option.split sum.split)

lemma register_paired:
  assumes "zero_time < now p"
  shows "\<forall>u' \<in> set (persisted (snd (register cfg p d))). paired u'"
  using assms
  by (simp add: register_def Let_def paired_def zero_User_def Hour_def split: option.split sum.split)

lemma password_reset_paired:
  assumes "zero_time < now p" "FindFirst (store cfg) (reset_Email b) = Inr u" "paired u"
  shows "\<forall>u' \<in> set (persisted (snd (password_reset cfg p a (Inr b)))). paired u'"
  using assms
  by (simp add: password_reset_def Let_def paired_def Hour_def split: option.split sum.split)

lemma email_verify_paired:
  assumes "zero_time < now p" "FindFirst (store cfg) (verify_Email b) = Inr u" "paired u"
  shows "\<forall>u' \<in> set (persisted (snd (email_verify cfg p a (Inr b)))). paired u'"
  using assms
  by (simp add: email_verify_def Let_def paired_def Hour_def split: option.split sum.split)

lemma serve_paired:
  assumes "zero_time < now p" "\<forall>u. fetched cfg r = Some u \<longrightarrow> paired u"
  shows "\<forall>u' \<in> set (persisted (snd (serve cfg p r))). paired u'"
proof (cases r)
  case (Login a d)
  show ?thesis
  proof (cases d)
    case (Inl e) with Login show ?thesis by (simp add: decode_failure_persists_nothing)
  next
    case b: (Inr b)
    show ?thesis
    proof (cases "FindFirst (store cfg) (login_Email b)")
      case (Inl e) with Login b show ?thesis by (simp add: not_found_persists_nothing)
    next
      case (Inr u)
      with Login b assms have "paired u" by auto
      from login_paired [OF assms(1) Inr this] Login b show ?thesis by simp
    qed
  qed
next
  case (Register d)
  then show ?thesis using register_paired [OF assms(1), of cfg d] by simp
next
  case (PasswordReset a d)
  show ?thesis
  proof (cases d)
    case (Inl e) with PasswordReset show ?thesis by (simp add: decode_failure_persists_nothing)
  next
    case b: (Inr b)
    show ?thesis
    proof (cases "FindFirst (store cfg) (reset_Email b)")
      case (Inl e) with PasswordReset b show ?thesis by (simp add: not_found_persists_nothing)
    next
      case (Inr u)
      with PasswordReset b assms have "paired u" by auto
      from password_reset_paired [OF assms(1) Inr this] PasswordReset b show ?thesis by simp
    qed
  qed
next
  case (EmailVerify a d)
  show ?thesis
  proof (cases d)
    case (Inl e) with EmailVerify show ?thesis by (simp add: decode_failure_persists_nothing)
  next
    case b: (Inr b)
    show ?thesis
    proof (cases "FindFirst (store cfg) (verify_Email b)")
      case (Inl e) with EmailVerify b show ?thesis by (simp add: not_found_persists_nothing)
    next
      case (Inr u)
      with EmailVerify b assms have "paired u" by auto
      from email_verify_paired [OF assms(1) Inr this] EmailVerify b show ?thesis by simp
    qed
  qed
qed

text \<open>
  Claim C4, amended.  Every operation that issues a token pairs it with an expiry: the
  verify token of login's verify branch, of register and of email-verify's resend with
  two hours from now, the reset token of the reset request with one hour, the magic-link
  claims with ten minutes; the tokens are not empty, and with a clock after year 1 the
  expiries are not the zero time, so every identity the password strategy persists holds
  an expiry for each token it holds, when the fetched one did.  The success path of
  email-verify clears the token and its expiry.  The success path of password-reset
  clears the token.  The paths that regenerate after the expiry clear neither: they
  store a fresh token with a fresh expiry.
\<close>

theorem token_issue_and_consumption:
  assumes "zero_time < now p"
  shows
   "((\<forall>u. fetched cfg r = Some u \<longrightarrow> paired u)
        \<longrightarrow> (\<forall>u' \<in> set (persisted (snd (serve cfg p r))). paired u'))
    \<and> (FindFirst (store cfg) (login_Email lb) = Inr lu \<and> (\<not> EmailVerified lu \<or> la = ''verify'')
        \<longrightarrow> persisted (snd (login cfg p la (Inr lb))) =
              [lu \<lparr> EmailVerifyToken := Generate p 0 4,
                    EmailVerifyTokenExpiresAt := now p + Hour * 2 \<rparr>])
    \<and> map (\<lambda>u. (EmailVerifyToken u, EmailVerifyTokenExpiresAt u))
          (persisted (snd (register cfg p (Inr gb)))) = [(Generate p 16 4, now p + Hour * 2)]
    \<and> (FindFirst (store cfg) (reset_Email rb) = Inr ru
        \<longrightarrow> persisted (snd (password_reset cfg p ''reset'' (Inr rb))) =
              [ru \<lparr> PasswordResetToken := Generate p 0 6,
                    PasswordResetTokenExpiresAt := now p + Hour * 1 \<rparr>]
          \<and> (ra \<noteq> ''reset'' \<and> reset_Token rb = PasswordResetToken ru
                \<and> now p > PasswordResetTokenExpiresAt ru
              \<longrightarrow> persisted (snd (password_reset cfg p ra (Inr rb))) =
                    [ru \<lparr> PasswordResetToken := Generate p 0 6,
                          PasswordResetTokenExpiresAt := now p + Hour * 1 \<rparr>])
          \<and> (ra \<noteq> ''reset'' \<and> reset_Token rb = PasswordResetToken ru
                \<and> \<not> now p > PasswordResetTokenExpiresAt ru
              \<longrightarrow> map PasswordResetToken (persisted (snd (password_reset cfg p ra (Inr rb)))) = [[]]))
    \<and> (FindFirst (store cfg) (verify_Email vb) = Inr vu
        \<longrightarrow> persisted (snd (email_verify cfg p ''resend'' (Inr vb))) =
              [vu \<lparr> EmailVerifyToken := Generate p 0 4,
                    EmailVerifyTokenExpiresAt := now p + Hour * 2 \<rparr>]
          \<and> (va \<noteq> ''resend'' \<and> verify_Token vb = EmailVerifyToken vu
                \<and> now p > EmailVerifyTokenExpiresAt vu
              \<longrightarrow> persisted (snd (email_verify cfg p va (Inr vb))) =
                    [vu \<lparr> EmailVerifyToken := Generate p 0 4,
                          EmailVerifyTokenExpiresAt := now p + Hour * 2 \<rparr>])
          \<and> (va \<noteq> ''resend'' \<and> verify_Token vb = EmailVerifyToken vu
                \<and> \<not> now p > EmailVerifyTokenExpiresAt vu
              \<longrightarrow> persisted (snd (email_verify cfg p va (Inr vb))) =
                    [vu \<lparr> EmailVerifyToken := [], EmailVerified := True,
                          EmailVerifyTokenExpiresAt := zero_time, EmailVerifiedAt := now p \<rparr>]))
    \<and> (CallEncrypt m \<in> set (snd (authorize pcfg p ma mt md))
        \<longrightarrow> map_of m ''expiry'' = Some (VInt64 (now p + Minute * 10)))
    \<and> Generate p pos 4 \<noteq> [] \<and> Generate p pos 6 \<noteq> []
    \<and> now p + Hour * 2 \<noteq> zero_time \<and> now p + Hour * 1 \<noteq> zero_time"
proof -
  have inv: "(\<forall>u. fetched cfg r = Some u \<longrightarrow> paired u)
        \<longrightarrow> (\<forall>u' \<in> set (persisted (snd (serve cfg p r))). paired u')"
    using serve_paired [OF assms, of cfg r] by (rule impI)
  have li: "FindFirst (store cfg) (login_Email lb) = Inr lu \<and> (\<not> EmailVerified lu \<or> la = ''verify'')
        \<longrightarrow> persisted (snd (login cfg p la (Inr lb))) =
              [lu \<lparr> EmailVerifyToken := Generate p 0 4,
                    EmailVerifyTokenExpiresAt := now p + Hour * 2 \<rparr>]"
    using login_issue [of cfg lb lu la p] by simp
  have rg: "map (\<lambda>u. (EmailVerifyToken u, EmailVerifyTokenExpiresAt u))
          (persisted (snd (register cfg p (Inr gb)))) = [(Generate p 16 4, now p + Hour * 2)]"
    by (rule register_issue)
  have rs: "FindFirst (store cfg) (reset_Email rb) = Inr ru
        \<longrightarrow> persisted (snd (password_reset cfg p ''reset'' (Inr rb))) =
              [ru \<lparr> PasswordResetToken := Generate p 0 6,
                    PasswordResetTokenExpiresAt := now p + Hour * 1 \<rparr>]
          \<and> (ra \<noteq> ''reset'' \<and> reset_Token rb = PasswordResetToken ru
                \<and> now p > PasswordResetTokenExpiresAt ru
              \<longrightarrow> persisted (snd (password_reset cfg p ra (Inr rb))) =
                    [ru \<lparr> PasswordResetToken := Generate p 0 6,
                          PasswordResetTokenExpiresAt := now p + Hour * 1 \<rparr>])
          \<and> (ra \<noteq> ''reset'' \<and> reset_Token rb = PasswordResetToken ru
                \<and> \<not> now p > PasswordResetTokenExpiresAt ru
              \<longrightarrow> map PasswordResetToken (persisted (snd (password_reset cfg p ra (Inr rb)))) = [[]])"
    using reset_issue [of cfg rb ru p] reset_expired [of cfg rb ru ra p] reset_consume [of cfg rb ru ra p]
    by simp
  have ev: "FindFirst (store cfg) (verify_Email vb) = Inr vu
        \<longrightarrow> persisted (snd (email_verify cfg p ''resend'' (Inr vb))) =
              [vu \<lparr> EmailVerifyToken := Generate p 0 4,
                    EmailVerifyTokenExpiresAt := now p + Hour * 2 \<rparr>]
          \<and> (va \<noteq> ''resend'' \<and> verify_Token vb = EmailVerifyToken vu
                \<and> now p > EmailVerifyTokenExpiresAt vu
              \<longrightarrow> persisted (snd (email_verify cfg p va (Inr vb))) =
                    [vu \<lparr> EmailVerifyToken := Generate p 0 4,
                          EmailVerifyTokenExpiresAt := now p + Hour * 2 \<rparr>])
          \<and> (va \<noteq> ''resend'' \<and> verify_Token vb = EmailVerifyToken vu
                \<and> \<not> now p > EmailVerifyTokenExpiresAt vu
              \<longrightarrow> persisted (snd (email_verify cfg p va (Inr vb))) =
                    [vu \<lparr> EmailVerifyToken := [], EmailVerified := True,
                          EmailVerifyTokenExpiresAt := zero_time, EmailVerifiedAt := now p \<rparr>])"
    using resend_issue [of cfg vb vu p] verify_expired [of cfg vb vu va p] verify_consume [of cfg vb vu va p]
    by simp
  have ml: "CallEncrypt m \<in> set (snd (authorize pcfg p ma mt md))
        \<longrightarrow> map_of m ''expiry'' = Some (VInt64 (now p + Minute * 10))"
    using magic_link_issue [of m pcfg p ma mt md] by (rule impI)
  have ne: "Generate p pos 4 \<noteq> [] \<and> Generate p pos 6 \<noteq> []
    \<and> now p + Hour * 2 \<noteq> zero_time \<and> now p + Hour * 1 \<noteq> zero_time"
    using fresh_expiry_nonzero [OF assms] by (simp add: Generate_nonempty)
  from ne have n1: "Generate p pos 4 \<noteq> []" and n2: "Generate p pos 6 \<noteq> []"
    and n3: "now p + Hour * 2 \<noteq> zero_time" and n4: "now p + Hour * 1 \<noteq> zero_time"
    by blast+
  show ?thesis
    by (intro conjI) (rule inv, rule li, rule rg, rule rs, rule ev, rule ml,
        rule n1, rule n2, rule n3, rule n4)
qed

theorem token_issue_and_consumption_witness:
  "zero_time < now proc \<and> zero_time < now early
   \<and> FindFirst (store (pw_cfg [alice, bob])) (verify_Email bob_verify) = Inr bob
   \<and> verify_Token bob_verify = EmailVerifyToken bob
   \<and> \<not> now proc > EmailVerifyTokenExpiresAt bob
   \<and> persisted (snd (email_verify (pw_cfg [alice, bob]) proc [] (Inr bob_verify))) =
         [bob \<lparr> EmailVerifyToken := [], EmailVerified := True,
               EmailVerifyTokenExpiresAt := zero_time, EmailVerifiedAt := 1700000000 \<rparr>]
   \<and> persisted (snd (login (pw_cfg [alice, bob]) proc [] (Inr bob_login))) =
         [bob \<lparr> EmailVerifyToken := ''7777'', EmailVerifyTokenExpiresAt := 1700007200 \<rparr>]
   \<and> FindFirst (store (pw_cfg [alice, bob_reset])) (reset_Email bob_consume) = Inr bob_reset
   \<and> reset_Token bob_consume = PasswordResetToken bob_reset
   \<and> now proc > PasswordResetTokenExpiresAt bob_reset
   \<and> persisted (snd (password_reset (pw_cfg [alice, bob_reset]) proc ''reset'' (Inr bob_consume))) =
         [bob_reset \<lparr> PasswordResetToken := ''777777'', PasswordResetTokenExpiresAt := 1700003600 \<rparr>]
   \<and> persisted (snd (password_reset (pw_cfg [alice, bob_reset]) proc [] (Inr bob_consume))) =
         [bob_reset \<lparr> PasswordResetToken := ''777777'', PasswordResetTokenExpiresAt := 1700003600 \<rparr>]
   \<and> \<not> now early > PasswordResetTokenExpiresAt bob_reset
   \<and> map PasswordResetToken
         (persisted (snd (password_reset (pw_cfg [alice, bob_reset]) early [] (Inr bob_consume)))) = [[]]
   \<and> CallEncrypt [(''email'', VString ''alice@x.com''), (''expiry'', VInt64 1700000600)]
         \<in> set (snd (authorize (pl_cfg [alice] delivered) proc [] [] (Inr alice_auth)))
   \<and> fetched (pw_cfg [alice, bob]) (Login [] (Inr bob_login)) = Some bob
   \<and> paired bob
   \<and> paired (bob \<lparr> EmailVerifyToken := ''7777'', EmailVerifyTokenExpiresAt := 1700007200 \<rparr>)"
proof -
  have zp: "zero_time < now proc" by (simp add: zero_time_def proc_def)
  have ze: "zero_time < now early" by (simp add: zero_time_def early_def proc_def)
  have fv: "FindFirst (store (pw_cfg [alice, bob])) (verify_Email bob_verify) = Inr bob"
    by (simp add: ex_defs bob_verify_def)
  have fl: "FindFirst (store (pw_cfg [alice, bob])) (login_Email bob_login) = Inr bob"
    by (simp add: ex_defs)
  have fr: "FindFirst (store (pw_cfg [alice, bob_reset])) (reset_Email bob_consume) = Inr bob_reset"
    by (simp add: ex_defs)
  have hv: "verify_Token bob_verify = EmailVerifyToken bob \<and> \<not> now proc > EmailVerifyTokenExpiresAt bob
            \<and> \<not> EmailVerified bob"
    by (simp add: ex_defs bob_verify_def)
  have hr: "reset_Token bob_consume = PasswordResetToken bob_reset
            \<and> now proc > PasswordResetTokenExpiresAt bob_reset
            \<and> \<not> now early > PasswordResetTokenExpiresAt bob_reset"
    by (simp add: ex_defs early_def)
  have me: "CallEncrypt [(''email'', VString ''alice@x.com''), (''expiry'', VInt64 1700000600)]
         \<in> set (snd (authorize (pl_cfg [alice] delivered) proc [] [] (Inr alice_auth)))"
    by (simp add: authorize_def Let_def tokenValues_of_def Minute_def ex_defs)
  have fb: "fetched (pw_cfg [alice, bob]) (Login [] (Inr bob_login)) = Some bob"
    by (simp add: ex_defs)
  have pb: "paired bob" by (simp add: paired_def zero_time_def ex_defs)
  have fp: "\<forall>u. fetched (pw_cfg [alice, bob]) (Login [] (Inr bob_login)) = Some u \<longrightarrow> paired u"
    unfolding fb using pb by simp
  note A = token_issue_and_consumption
             [where p = proc and cfg = "pw_cfg [alice, bob]" and vb = bob_verify and vu = bob
                and va = "[]" and lb = bob_login and lu = bob and la = "[]"
                and r = "Login [] (Inr bob_login)", OF zp]
  note B = token_issue_and_consumption
             [where p = proc and cfg = "pw_cfg [alice, bob_reset]" and rb = bob_consume
                and ru = bob_reset and ra = "[]", OF zp]
  note C = token_issue_and_consumption
             [where p = early and cfg = "pw_cfg [alice, bob_reset]" and rb = bob_consume
                and ru = bob_reset and ra = "[]", OF ze]
  from A fv fl hv have a1: "persisted (snd (email_verify (pw_cfg [alice, bob]) proc [] (Inr bob_verify))) =
         [bob \<lparr> EmailVerifyToken := [], EmailVerified := True,
               EmailVerifyTokenExpiresAt := zero_time, EmailVerifiedAt := now proc \<rparr>]"
    by simp
  from A fv fl hv have a2: "persisted (snd (login (pw_cfg [alice, bob]) proc [] (Inr bob_login))) =
         [bob \<lparr> EmailVerifyToken := Generate proc 0 4, EmailVerifyTokenExpiresAt := now proc + Hour * 2 \<rparr>]"
    by simp
  from B fr hr have b1: "persisted (snd (password_reset (pw_cfg [alice, bob_reset]) proc ''reset'' (Inr bob_consume))) =
         [bob_reset \<lparr> PasswordResetToken := Generate proc 0 6,
                      PasswordResetTokenExpiresAt := now proc + Hour * 1 \<rparr>]"
    by simp
  from B fr hr have b2: "persisted (snd (password_reset (pw_cfg [alice, bob_reset]) proc [] (Inr bob_consume))) =
         [bob_reset \<lparr> PasswordResetToken := Generate proc 0 6,
                      PasswordResetTokenExpiresAt := now proc + Hour * 1 \<rparr>]"
    by simp
  from C fr hr have c1: "map PasswordResetToken
         (persisted (snd (password_reset (pw_cfg [alice, bob_reset]) early [] (Inr bob_consume)))) = [[]]"
    by simp
  from A fp have "\<forall>u' \<in> set (persisted (snd (serve (pw_cfg [alice, bob]) proc (Login [] (Inr bob_login))))). paired u'"
    by blast
  with a2 have a3: "paired (bob \<lparr> EmailVerifyToken := Generate proc 0 4,
                                 EmailVerifyTokenExpiresAt := now proc + Hour * 2 \<rparr>)"
    by simp
  have np: "now proc = 1700000000" by (simp add: proc_def)
  from zp ze fv fr hv hr me a1 a2 b1 b2 c1 fb pb a3 show ?thesis
    by (simp add: np Generate_sevens4 Generate_sevens6 Hour_def)
qed

end
